theory Spec2Isabelle
  imports Complex_Main
begin

section \<open>JavaScript numbers\<close>

text \<open>
  Stakes, balances, amounts and called numbers are JavaScript \<open>number\<close>s, the values of
  IEEE 754 binary64. \<open>Fin q\<close> is the finite number whose value is the rational \<open>q\<close>
  (\<open>Fin 0\<close> is the positive zero), \<open>NegZero\<close> the negative zero, \<open>PInf\<close> and \<open>NInf\<close> the
  infinities. An arithmetic operation computes the exact result and rounds it to the
  nearest double, ties to the even significand (\<open>to_double\<close>): a double is a multiple
  \<open>m * 2 ^ e\<close> of its unit in the last place with \<open>\<bar>m\<bar> < 2 ^ 53\<close> and
  \<open>- 1074 \<le> e \<le> 971\<close>; a result that rounds to \<open>2 ^ 1024\<close> or beyond is an infinity, one
  that rounds to zero is the zero of the operation's sign.
\<close>

datatype jsnum = Fin rat | NegZero | PInf | NInf | NaN

text \<open>\<open>bits n\<close> is the length of \<open>n\<close> in binary, \<open>floorlog2 q\<close> the \<open>k\<close> with
  \<open>2 ^ k \<le> q < 2 ^ (k + 1)\<close> for a positive \<open>q\<close>.\<close>

function bits :: "int \<Rightarrow> int" where
  "bits n = (if n \<le> 0 then 0 else 1 + bits (n div 2))"
  by pat_completeness auto

termination
  by (relation "measure nat") auto

declare bits.simps [simp del]

definition pow2 :: "int \<Rightarrow> rat" where
  "pow2 e = (if 0 \<le> e then 2 ^ nat e else 1 / 2 ^ nat (- e))"

definition floorlog2 :: "rat \<Rightarrow> int" where
  "floorlog2 q =
     (if 1 \<le> q then bits \<lfloor>q\<rfloor> - 1
      else (let j = bits \<lfloor>1 / q\<rfloor> - 1
            in if q = pow2 (- j) then - j else - j - 1))"

text \<open>The exponent of the unit in the last place of the doubles around \<open>q\<close>.\<close>

definition ulp_exp :: "rat \<Rightarrow> int" where
  "ulp_exp q = max (floorlog2 \<bar>q\<bar> - 52) (- 1074)"

text \<open>The nearest integer, a tie going to the even one.\<close>

definition round_even :: "rat \<Rightarrow> int" where
  "round_even q =
     (let f = \<lfloor>q\<rfloor>; d = q - of_int f
      in if d < 1 / 2 then f else if 1 / 2 < d then f + 1 else if even f then f else f + 1)"

definition round_double :: "rat \<Rightarrow> rat" where
  "round_double q = of_int (round_even (q / pow2 (ulp_exp q))) * pow2 (ulp_exp q)"

definition signed_zero :: "bool \<Rightarrow> jsnum" where
  "signed_zero s = (if s then NegZero else Fin 0)"

definition signed_inf :: "bool \<Rightarrow> jsnum" where
  "signed_inf s = (if s then NInf else PInf)"

text \<open>
  The double for the exact result \<open>q\<close> of an operation; \<open>s\<close> says that a zero result is
  negative.
\<close>

definition to_double :: "bool \<Rightarrow> rat \<Rightarrow> jsnum" where
  "to_double s q =
     (let r = round_double q
      in if 2 ^ 1024 \<le> \<bar>r\<bar> then signed_inf (q < 0)
         else if r = 0 then signed_zero s
         else Fin r)"

text \<open>The value of a decimal literal of the source, such as \<open>0.03\<close>.\<close>

definition js_number :: "rat \<Rightarrow> jsnum" where
  "js_number q = to_double False q"

fun js_finite :: "jsnum \<Rightarrow> bool" where
  "js_finite (Fin a) = True"
| "js_finite NegZero = True"
| "js_finite _ = False"

text \<open>The value of a finite number and the sign bit of a number.\<close>

fun js_val :: "jsnum \<Rightarrow> rat" where
  "js_val (Fin a) = a"
| "js_val _ = 0"

fun js_negative :: "jsnum \<Rightarrow> bool" where
  "js_negative (Fin a) = (a < 0)"
| "js_negative NegZero = True"
| "js_negative NInf = True"
| "js_negative _ = False"

definition js_zero :: "jsnum \<Rightarrow> bool" where
  "js_zero x = (js_finite x \<and> js_val x = 0)"

fun js_neg :: "jsnum \<Rightarrow> jsnum" where
  "js_neg (Fin a) = (if a = 0 then NegZero else Fin (- a))"
| "js_neg NegZero = Fin 0"
| "js_neg PInf = NInf"
| "js_neg NInf = PInf"
| "js_neg NaN = NaN"

text \<open>
  \<open>x + y\<close>: the sum of two zeros is negative when both are, and an exact sum of zero is
  positive otherwise.
\<close>

definition js_add :: "jsnum \<Rightarrow> jsnum \<Rightarrow> jsnum" where
  "js_add x y =
     (if x = NaN \<or> y = NaN then NaN
      else if \<not> js_finite x \<and> \<not> js_finite y then (if x = y then x else NaN)
      else if \<not> js_finite x then x
      else if \<not> js_finite y then y
      else to_double (js_negative x \<and> js_negative y) (js_val x + js_val y))"

definition js_sub :: "jsnum \<Rightarrow> jsnum \<Rightarrow> jsnum" where
  "js_sub a b = js_add a (js_neg b)"

definition js_mul :: "jsnum \<Rightarrow> jsnum \<Rightarrow> jsnum" where
  "js_mul x y =
     (if x = NaN \<or> y = NaN then NaN
      else if \<not> js_finite x \<or> \<not> js_finite y
      then (if js_zero x \<or> js_zero y then NaN
            else signed_inf (js_negative x \<noteq> js_negative y))
      else to_double (js_negative x \<noteq> js_negative y) (js_val x * js_val y))"

definition js_div :: "jsnum \<Rightarrow> jsnum \<Rightarrow> jsnum" where
  "js_div x y =
     (if x = NaN \<or> y = NaN then NaN
      else if \<not> js_finite x
      then (if \<not> js_finite y then NaN else signed_inf (js_negative x \<noteq> js_negative y))
      else if \<not> js_finite y then signed_zero (js_negative x \<noteq> js_negative y)
      else if js_val y = 0
      then (if js_val x = 0 then NaN else signed_inf (js_negative x \<noteq> js_negative y))
      else to_double (js_negative x \<noteq> js_negative y) (js_val x / js_val y))"

text \<open>\<open>Math.floor\<close>: the floor of a double is a double.\<close>

fun js_floor :: "jsnum \<Rightarrow> jsnum" where
  "js_floor (Fin a) = Fin (of_int \<lfloor>a\<rfloor>)"
| "js_floor x = x"

text \<open>The comparisons \<open><\<close> and \<open><=\<close>: false when an operand is \<open>NaN\<close>; the zeros are equal.\<close>

definition js_lt :: "jsnum \<Rightarrow> jsnum \<Rightarrow> bool" where
  "js_lt x y =
     (x \<noteq> NaN \<and> y \<noteq> NaN
      \<and> (if js_finite x \<and> js_finite y then js_val x < js_val y
         else (x = NInf \<and> y \<noteq> NInf) \<or> (y = PInf \<and> x \<noteq> PInf)))"

definition js_le :: "jsnum \<Rightarrow> jsnum \<Rightarrow> bool" where
  "js_le x y =
     (x \<noteq> NaN \<and> y \<noteq> NaN
      \<and> (if js_finite x \<and> js_finite y then js_val x \<le> js_val y
         else x = NInf \<or> y = PInf))"

definition js_gt :: "jsnum \<Rightarrow> jsnum \<Rightarrow> bool" where
  "js_gt a b = js_lt b a"

definition js_ge :: "jsnum \<Rightarrow> jsnum \<Rightarrow> bool" where
  "js_ge a b = js_le b a"

text \<open>Truthiness of a number: the zeros and \<open>NaN\<close> are falsy.\<close>

definition js_truthy :: "jsnum \<Rightarrow> bool" where
  "js_truthy x = (x \<noteq> NaN \<and> \<not> js_zero x)"

text \<open>\<open>x || 0\<close> on a number, and on an optional field (\<open>undefined\<close> is \<open>None\<close>).\<close>

definition num_or0 :: "jsnum \<Rightarrow> jsnum" where
  "num_or0 x = (if js_truthy x then x else Fin 0)"

definition or0 :: "jsnum option \<Rightarrow> jsnum" where
  "or0 x = (case x of None \<Rightarrow> Fin 0 | Some v \<Rightarrow> num_or0 v)"

text \<open>An optional field used in arithmetic or a comparison: \<open>undefined\<close> converts to \<open>NaN\<close>.\<close>

definition num_of :: "jsnum option \<Rightarrow> jsnum" where
  "num_of x = (case x of None \<Rightarrow> NaN | Some v \<Rightarrow> v)"

text \<open>
  Equality of two numbers as \<open>Array.prototype.includes\<close> and the methods of \<open>Set\<close> take it
  (\<open>NaN\<close> equals itself, the zeros are equal), and a \<open>Set\<close> of numbers as the list of its
  elements in insertion order (\<open>Set.prototype.add\<close> stores the negative zero as the
  positive one).
\<close>

definition same_value_zero :: "jsnum \<Rightarrow> jsnum \<Rightarrow> bool" where
  "same_value_zero x y = (if js_zero x then js_zero y else x = y)"

definition js_includes :: "jsnum list \<Rightarrow> jsnum \<Rightarrow> bool" where
  "js_includes xs n = list_ex (\<lambda>x. same_value_zero x n) xs"

definition numset_add :: "jsnum \<Rightarrow> jsnum list \<Rightarrow> jsnum list" where
  "numset_add n xs =
     (if js_includes xs n then xs else xs @ [if n = NegZero then Fin 0 else n])"

definition numset_delete :: "jsnum \<Rightarrow> jsnum list \<Rightarrow> jsnum list" where
  "numset_delete n xs = filter (\<lambda>x. \<not> same_value_zero x n) xs"

section \<open>Data model (models/interfaces.ts)\<close>

text \<open>
  A transport endpoint is an object reference; the model names it by a number. Clock
  readings (\<open>Date.now()\<close>, \<open>new Date()\<close>) are milliseconds and are passed to the operation
  that reads the clock, as one reading for the whole operation. A \<open>Set\<close> is the list of
  its elements in insertion order.
\<close>

type_synonym sock = nat

record player =
  p_id :: string
  p_name :: string
  p_phone :: string
  p_stake :: jsnum
  p_gameType :: string
  p_payment :: jsnum
  p_wonAmount :: "jsnum option"
  p_withdrawn :: "jsnum option"
  p_balance :: "jsnum option"
  p_joinedAt :: int
  p_socket :: "sock option"
  p_roomId :: "string option"
  p_markedNumbers :: "jsnum list"
  p_lastActive :: "int option"

record winner =
  w_playerId :: string
  w_name :: string
  w_pattern :: string
  w_amount :: jsnum
  w_timestamp :: int

text \<open>
  \<open>message\<close> stands for the payload of an outbound message. The last three fields of a
  room are the ones services/broadcaster.ts keeps on the room object.
\<close>

datatype message = Msg string | Batch "message list"

record room =
  r_id :: string
  r_gameType :: string
  r_stake :: jsnum
  r_players :: "string list"
  r_admin :: "sock option"
  r_active :: bool
  r_calledNumbers :: "jsnum list"
  r_winners :: "winner list"
  r_createdAt :: int
  r_startedAt :: "int option"
  r_endedAt :: "int option"
  r_lastBroadcast :: "int option"
  r_queuedMessages :: "(message \<times> int) list option"
  r_broadcastTimeout :: "nat option"

section \<open>Player store (models/player.ts)\<close>

text \<open>The \<open>players\<close> map of \<open>PlayerModel\<close>, keyed by player id.\<close>

type_synonym playerModel = "string \<rightharpoonup> player"

definition getPlayer :: "playerModel \<Rightarrow> string \<Rightarrow> player option" where
  "getPlayer pm playerId = pm playerId"

text \<open>\<open>currentBalance\<close> as \<open>getStats\<close> reports it: \<open>player.balance || 0\<close>.\<close>

definition currentBalance :: "player \<Rightarrow> jsnum" where
  "currentBalance p = or0 (p_balance p)"

definition processPayment :: "playerModel \<Rightarrow> string \<Rightarrow> jsnum \<Rightarrow> int \<Rightarrow> player option \<times> playerModel" where
  "processPayment pm playerId amt now =
     (case pm playerId of
        None \<Rightarrow> (None, pm)
      | Some p \<Rightarrow>
          let p' = p\<lparr>p_payment := js_add (num_or0 (p_payment p)) amt,
                      p_balance := Some (js_add (or0 (p_balance p)) amt),
                      p_lastActive := Some now\<rparr>
          in (Some p', pm(playerId \<mapsto> p')))"

definition processWin :: "playerModel \<Rightarrow> string \<Rightarrow> jsnum \<Rightarrow> int \<Rightarrow> player option \<times> playerModel" where
  "processWin pm playerId amt now =
     (case pm playerId of
        None \<Rightarrow> (None, pm)
      | Some p \<Rightarrow>
          let p' = p\<lparr>p_wonAmount := Some (js_add (or0 (p_wonAmount p)) amt),
                      p_balance := Some (js_add (or0 (p_balance p)) amt),
                      p_lastActive := Some now\<rparr>
          in (Some p', pm(playerId \<mapsto> p')))"

text \<open>
  The result object \<open>{success, player?, error?}\<close> is \<open>Inl error\<close> when \<open>success\<close> is false
  and \<open>Inr player\<close> when it is true.
\<close>

definition processWithdrawal ::
    "playerModel \<Rightarrow> string \<Rightarrow> jsnum \<Rightarrow> int \<Rightarrow> (string + player) \<times> playerModel" where
  "processWithdrawal pm playerId amt now =
     (case pm playerId of
        None \<Rightarrow> (Inl ''Player not found'', pm)
      | Some p \<Rightarrow>
          if js_gt amt (or0 (p_balance p)) then (Inl ''Insufficient balance'', pm)
          else
            let p' = p\<lparr>p_balance := Some (js_sub (or0 (p_balance p)) amt),
                        p_withdrawn := Some (js_add (or0 (p_withdrawn p)) amt),
                        p_lastActive := Some now\<rparr>
            in (Inr p', pm(playerId \<mapsto> p')))"

section \<open>Room store (models/room.ts)\<close>

type_synonym roomModel = "string \<rightharpoonup> room"

definition getRoom :: "roomModel \<Rightarrow> string \<Rightarrow> room option" where
  "getRoom rm roomId = rm roomId"

text \<open>\<open>isFull(roomId, maxPlayers = 90)\<close>: an omitted argument is \<open>None\<close>.\<close>

definition isFull :: "roomModel \<Rightarrow> string \<Rightarrow> jsnum option \<Rightarrow> bool" where
  "isFull rm roomId maxPlayers =
     (let mp = (case maxPlayers of None \<Rightarrow> Fin 90 | Some m \<Rightarrow> m)
      in case rm roomId of
           Some r \<Rightarrow> js_ge (Fin (of_nat (length (r_players r)))) mp
         | None \<Rightarrow> True)"

text \<open>
  The two singletons \<open>playerModel\<close> and \<open>roomModel\<close>: the operations of the room store
  reach into the player store, so they work on both.
\<close>

record stores =
  playerModel :: "string \<rightharpoonup> player"
  roomModel :: "string \<rightharpoonup> room"

text \<open>\<open>remove(roomId)\<close>: detach every member that is still registered, then delete the room.\<close>

definition detachPlayer :: "playerModel \<Rightarrow> string \<Rightarrow> playerModel" where
  "detachPlayer pm playerId =
     (case pm playerId of
        None \<Rightarrow> pm
      | Some p \<Rightarrow> pm(playerId \<mapsto> p\<lparr>p_roomId := None, p_markedNumbers := []\<rparr>))"

definition remove :: "stores \<Rightarrow> string \<Rightarrow> bool \<times> stores" where
  "remove s roomId =
     (let pm' = (case roomModel s roomId of
                   None \<Rightarrow> playerModel s
                 | Some r \<Rightarrow> foldl detachPlayer (playerModel s) (r_players r))
      in (roomModel s roomId \<noteq> None,
          \<lparr>playerModel = pm', roomModel = (roomModel s)(roomId := None)\<rparr>))"

definition addPlayer :: "stores \<Rightarrow> string \<Rightarrow> string \<Rightarrow> bool \<times> stores" where
  "addPlayer s roomId playerId =
     (case roomModel s roomId of
        None \<Rightarrow> (False, s)
      | Some r \<Rightarrow>
          let r' = r\<lparr>r_players := (if playerId \<in> set (r_players r) then r_players r
                                     else r_players r @ [playerId])\<rparr>
          in (True, s\<lparr>roomModel := (roomModel s)(roomId \<mapsto> r')\<rparr>))"

definition removePlayer :: "stores \<Rightarrow> string \<Rightarrow> string \<Rightarrow> bool \<times> stores" where
  "removePlayer s roomId playerId =
     (case roomModel s roomId of
        None \<Rightarrow> (False, s)
      | Some r \<Rightarrow>
          let removed = (playerId \<in> set (r_players r));
              r' = r\<lparr>r_players := removeAll playerId (r_players r)\<rparr>;
              s' = s\<lparr>roomModel := (roomModel s)(roomId \<mapsto> r')\<rparr>
          in if length (r_players r') = 0 then (removed, snd (remove s' roomId))
             else (removed, s'))"

definition startGame :: "stores \<Rightarrow> string \<Rightarrow> int \<Rightarrow> bool \<times> stores" where
  "startGame s roomId now =
     (case roomModel s roomId of
        None \<Rightarrow> (False, s)
      | Some r \<Rightarrow>
          if r_active r then (False, s)
          else
            let r' = r\<lparr>r_active := True, r_startedAt := Some now,
                        r_calledNumbers := [], r_winners := []\<rparr>;
                clearMarked = (\<lambda>pm playerId.
                   case pm playerId of
                     None \<Rightarrow> pm
                   | Some p \<Rightarrow> pm(playerId \<mapsto> p\<lparr>p_markedNumbers := []\<rparr>))
            in (True, \<lparr>playerModel = foldl clearMarked (playerModel s) (r_players r),
                       roomModel = (roomModel s)(roomId \<mapsto> r')\<rparr>))"

text \<open>
  \<open>player?.stake || 0\<close> for the player registered under an id, and the two \<open>reduce\<close>
  sums of \<open>calculateWinnings\<close> (\<open>totalStake\<close> over the members, \<open>totalWinnerStake\<close> over
  the winners).
\<close>

definition stakeOf :: "playerModel \<Rightarrow> string \<Rightarrow> jsnum" where
  "stakeOf pm playerId = (case pm playerId of None \<Rightarrow> Fin 0 | Some p \<Rightarrow> num_or0 (p_stake p))"

definition memberStakeSum :: "playerModel \<Rightarrow> room \<Rightarrow> jsnum" where
  "memberStakeSum pm r = foldl (\<lambda>sum playerId. js_add sum (stakeOf pm playerId)) (Fin 0) (r_players r)"

definition winnerStakeSum :: "playerModel \<Rightarrow> room \<Rightarrow> jsnum" where
  "winnerStakeSum pm r =
     foldl (\<lambda>sum w. js_add sum (stakeOf pm (w_playerId w))) (Fin 0) (r_winners r)"

text \<open>
  The loop \<open>room.winners.forEach\<close> of \<open>calculateWinnings\<close>: each iteration looks the
  winner's player up in the store as the earlier iterations left it.
\<close>

fun payWinners ::
    "jsnum \<Rightarrow> jsnum \<Rightarrow> int \<Rightarrow> playerModel \<Rightarrow> winner list \<Rightarrow> winner list \<times> playerModel" where
  "payWinners prizePool totalWinnerStake now pm [] = ([], pm)"
| "payWinners prizePool totalWinnerStake now pm (w # ws) =
     (case pm (w_playerId w) of
        None \<Rightarrow>
          (let (ws', pm') = payWinners prizePool totalWinnerStake now pm ws
           in (w # ws', pm'))
      | Some p \<Rightarrow>
          (let stakeRatio = js_div (num_or0 (p_stake p)) totalWinnerStake;
               winAmount = js_floor (js_mul prizePool stakeRatio);
               pm1 = snd (processWin pm (w_playerId w) winAmount now);
               (ws', pm') = payWinners prizePool totalWinnerStake now pm1 ws
           in (w\<lparr>w_amount := winAmount\<rparr> # ws', pm')))"

definition calculateWinnings :: "playerModel \<Rightarrow> room \<Rightarrow> int \<Rightarrow> room \<times> playerModel" where
  "calculateWinnings pm r now =
     (if length (r_winners r) = 0 then (r, pm)
      else
        let totalStake = memberStakeSum pm r;
            serviceCharge = js_mul totalStake (js_number (3 / 100));
            prizePool = js_sub totalStake serviceCharge;
            totalWinnerStake = winnerStakeSum pm r;
            (ws', pm') = payWinners prizePool totalWinnerStake now pm (r_winners r)
        in (r\<lparr>r_winners := ws'\<rparr>, pm'))"

definition endGame :: "stores \<Rightarrow> string \<Rightarrow> int \<Rightarrow> bool \<times> stores" where
  "endGame s roomId now =
     (case roomModel s roomId of
        None \<Rightarrow> (False, s)
      | Some r \<Rightarrow>
          if \<not> r_active r then (False, s)
          else
            let (r', pm') = calculateWinnings (playerModel s)
                              (r\<lparr>r_active := False, r_endedAt := Some now\<rparr>) now
            in (True, \<lparr>playerModel = pm', roomModel = (roomModel s)(roomId \<mapsto> r')\<rparr>))"

definition pauseGame :: "stores \<Rightarrow> string \<Rightarrow> bool \<times> stores" where
  "pauseGame s roomId =
     (case roomModel s roomId of
        None \<Rightarrow> (False, s)
      | Some r \<Rightarrow>
          if \<not> r_active r then (False, s)
          else (True, s\<lparr>roomModel := (roomModel s)(roomId \<mapsto> r\<lparr>r_active := False\<rparr>)\<rparr>))"

definition resumeGame :: "stores \<Rightarrow> string \<Rightarrow> bool \<times> stores" where
  "resumeGame s roomId =
     (case roomModel s roomId of
        None \<Rightarrow> (False, s)
      | Some r \<Rightarrow>
          if r_active r then (False, s)
          else (True, s\<lparr>roomModel := (roomModel s)(roomId \<mapsto> r\<lparr>r_active := True\<rparr>)\<rparr>))"

definition callNumber :: "stores \<Rightarrow> string \<Rightarrow> jsnum \<Rightarrow> bool \<times> stores" where
  "callNumber s roomId n =
     (case roomModel s roomId of
        None \<Rightarrow> (False, s)
      | Some r \<Rightarrow>
          if \<not> r_active r then (False, s)
          else (True, s\<lparr>roomModel :=
                  (roomModel s)(roomId \<mapsto> r\<lparr>r_calledNumbers := r_calledNumbers r @ [n]\<rparr>)\<rparr>))"

text \<open>\<open>addWinner\<close> takes the record without its timestamp and stamps it.\<close>

definition addWinner ::
    "stores \<Rightarrow> string \<Rightarrow> string \<Rightarrow> string \<Rightarrow> string \<Rightarrow> jsnum \<Rightarrow> int \<Rightarrow> bool \<times> stores" where
  "addWinner s roomId playerId nm pat amt now =
     (case roomModel s roomId of
        None \<Rightarrow> (False, s)
      | Some r \<Rightarrow>
          if \<not> r_active r then (False, s)
          else
            let w = \<lparr>w_playerId = playerId, w_name = nm, w_pattern = pat, w_amount = amt,
                     w_timestamp = now\<rparr>
            in (True, s\<lparr>roomModel :=
                  (roomModel s)(roomId \<mapsto> r\<lparr>r_winners := r_winners r @ [w]\<rparr>)\<rparr>))"

section \<open>Session server (the second server program of auth.ts)\<close>

text \<open>
  The server keeps its own maps \<open>rooms\<close> and \<open>players\<close> and the set \<open>adminConnections\<close>.
  A handler receives the endpoint \<open>ws\<close> with the properties the server reads from it, and
  the fields of the parsed message; a field the handler tests with \<open>typeof\<close> or for
  truthiness is optional (\<open>None\<close>: absent), and a field that is present has the type the
  handler expects. The reply is what the handler sends back to \<open>ws\<close>: an \<open>error\<close> event
  with its text (an error text that interpolates values is shortened), an event of another
  type, or nothing. Fan-out to rooms and admins changes no state and is left out here; the
  dispatch functions are modelled in their own section.
\<close>

record server =
  rooms :: "string \<rightharpoonup> room"
  players :: "string \<rightharpoonup> player"
  adminConnections :: "sock list"

record wsock =
  ws_sock :: sock
  ws_playerId :: "string option"
  ws_isAdmin :: bool

datatype reply = Error string | Silent | Sent string

text \<open>\<open>Set.add\<close> and \<open>Set.delete\<close> on the insertion-ordered list.\<close>

definition set_add :: "'a \<Rightarrow> 'a list \<Rightarrow> 'a list" where
  "set_add x xs = (if x \<in> set xs then xs else xs @ [x])"

definition set_delete :: "'a \<Rightarrow> 'a list \<Rightarrow> 'a list" where
  "set_delete x xs = removeAll x xs"

text \<open>
  Strict inequality \<open>!==\<close> of two numbers: \<open>NaN\<close> differs from everything, the zeros are
  equal.
\<close>

definition js_neq :: "jsnum \<Rightarrow> jsnum \<Rightarrow> bool" where
  "js_neq a b = (a = NaN \<or> b = NaN \<or> \<not> same_value_zero a b)"

definition str_truthy :: "string option \<Rightarrow> bool" where
  "str_truthy x = (case x of None \<Rightarrow> False | Some v \<Rightarrow> v \<noteq> [])"

definition newRoom :: "string \<Rightarrow> string \<Rightarrow> jsnum \<Rightarrow> int \<Rightarrow> room" where
  "newRoom roomId gameType stake now =
     \<lparr>r_id = roomId, r_gameType = gameType, r_stake = stake, r_players = [], r_admin = None,
      r_active = False, r_calledNumbers = [], r_winners = [], r_createdAt = now,
      r_startedAt = None, r_endedAt = None, r_lastBroadcast = None, r_queuedMessages = None,
      r_broadcastTimeout = None\<rparr>"

definition handleRegister ::
    "server \<Rightarrow> wsock \<Rightarrow> string \<Rightarrow> string option \<Rightarrow> string option \<Rightarrow> jsnum option \<Rightarrow>
     string option \<Rightarrow> jsnum option \<Rightarrow> int \<Rightarrow> reply \<times> server" where
  "handleRegister sv ws playerId nm ph stake gameType pay now =
     (if \<not> str_truthy nm \<or> \<not> str_truthy ph \<or> \<not> js_truthy (num_of stake) \<or> \<not> str_truthy gameType
      then (Error ''Missing required fields: name, phone, stake, gameType'', sv)
      else if js_le (num_of stake) (Fin 0) then (Error ''Invalid stake amount'', sv)
      else if players sv playerId \<noteq> None then (Error ''Player already registered'', sv)
      else
        let p = \<lparr>p_id = playerId, p_name = the nm, p_phone = the ph, p_stake = num_of stake,
                 p_gameType = the gameType, p_payment = or0 pay, p_wonAmount = None,
                 p_withdrawn = None, p_balance = Some (or0 pay), p_joinedAt = now,
                 p_socket = Some (ws_sock ws), p_roomId = None, p_markedNumbers = [],
                 p_lastActive = None\<rparr>
        in (Sent ''registration_success'', sv\<lparr>players := (players sv)(playerId \<mapsto> p)\<rparr>))"

definition handleJoinRoom :: "server \<Rightarrow> wsock \<Rightarrow> string \<Rightarrow> string \<Rightarrow> int \<Rightarrow> reply \<times> server" where
  "handleJoinRoom sv ws playerId roomId now =
     (case players sv playerId of
        None \<Rightarrow> (Error ''Player not found. Please register first.'', sv)
      | Some player \<Rightarrow>
          if js_lt (num_of (p_balance player)) (p_stake player)
          then (Error ''Insufficient balance to join room'', sv)
          else
            let room = (case rooms sv roomId of
                          Some r \<Rightarrow> r
                        | None \<Rightarrow> newRoom roomId (p_gameType player) (p_stake player) now);
                sv1 = sv\<lparr>rooms := (rooms sv)(roomId \<mapsto> room)\<rparr>
            in if 90 \<le> length (r_players room) then (Error ''Room is full'', sv1)
               else if r_gameType room \<noteq> p_gameType player
               then (Error ''Room game type does not match your selected game type'', sv1)
               else if js_neq (r_stake room) (p_stake player)
               then (Error ''Room stake does not match your selected stake'', sv1)
               else
                 let room' = room\<lparr>r_players := set_add playerId (r_players room)\<rparr>;
                     player' = player\<lparr>p_roomId := Some roomId, p_socket := Some (ws_sock ws),
                                 p_balance := Some (js_sub (num_of (p_balance player)) (p_stake player))\<rparr>
                 in (Sent ''room_joined'',
                     sv\<lparr>rooms := (rooms sv)(roomId \<mapsto> room'),
                        players := (players sv)(playerId \<mapsto> player')\<rparr>))"

text \<open>
  \<open>handleLeaveRoom\<close> in its two phases: the refund of the stake when the game has not
  started, then the removal of the member (and of the room once it is empty).
\<close>

definition refundStake :: "server \<Rightarrow> string \<Rightarrow> string \<Rightarrow> server" where
  "refundStake sv playerId roomId =
     (case (players sv playerId, rooms sv roomId) of
        (Some player, Some room) \<Rightarrow>
          if \<not> r_active room
          then sv\<lparr>players := (players sv)(playerId \<mapsto>
                 player\<lparr>p_balance := Some (js_add (num_of (p_balance player)) (p_stake player))\<rparr>)\<rparr>
          else sv
      | _ \<Rightarrow> sv)"

definition removeMember :: "server \<Rightarrow> string \<Rightarrow> string \<Rightarrow> server" where
  "removeMember sv playerId roomId =
     (case (players sv playerId, rooms sv roomId) of
        (Some player, Some room) \<Rightarrow>
          let room' = room\<lparr>r_players := set_delete playerId (r_players room)\<rparr>;
              player' = player\<lparr>p_roomId := None\<rparr>
          in sv\<lparr>rooms := (if length (r_players room') = 0 then (rooms sv)(roomId := None)
                            else (rooms sv)(roomId \<mapsto> room')),
                players := (players sv)(playerId \<mapsto> player')\<rparr>
      | _ \<Rightarrow> sv)"

definition handleLeaveRoom :: "server \<Rightarrow> wsock \<Rightarrow> string \<Rightarrow> string \<Rightarrow> reply \<times> server" where
  "handleLeaveRoom sv ws playerId roomId =
     (if players sv playerId = None \<or> rooms sv roomId = None then (Silent, sv)
      else (Sent ''room_left'', removeMember (refundStake sv playerId roomId) playerId roomId))"

definition handleStartGame ::
    "server \<Rightarrow> wsock \<Rightarrow> string \<Rightarrow> string option \<Rightarrow> jsnum option \<Rightarrow> reply \<times> server" where
  "handleStartGame sv ws roomId gameType stake =
     (case rooms sv roomId of
        None \<Rightarrow> (Error ''Room not found'', sv)
      | Some room \<Rightarrow>
          if \<not> ws_isAdmin ws then (Error ''Admin only action'', sv)
          else if r_active room then (Error ''Game is already active'', sv)
          else if length (r_players room) < 2 then (Error ''Need at least 2 players to start'', sv)
          else
            let room' = room\<lparr>r_active := True,
                  r_gameType := (if str_truthy gameType then the gameType else r_gameType room),
                  r_stake := (if js_truthy (num_of stake) then num_of stake else r_stake room),
                  r_calledNumbers := [], r_winners := [], r_admin := Some (ws_sock ws)\<rparr>
            in (Sent ''game_started'', sv\<lparr>rooms := (rooms sv)(roomId \<mapsto> room')\<rparr>))"

definition maxNumber :: "string \<Rightarrow> jsnum" where
  "maxNumber gameType =
     (if gameType = ''90ball'' then Fin 90
      else if gameType = ''30ball'' then Fin 30
      else if gameType = ''50ball'' then Fin 50
      else Fin 75)"

definition maxNumberText :: "string \<Rightarrow> string" where
  "maxNumberText gameType =
     (if gameType = ''90ball'' then ''90''
      else if gameType = ''30ball'' then ''30''
      else if gameType = ''50ball'' then ''50''
      else ''75'')"

definition handleNumberCalled :: "server \<Rightarrow> wsock \<Rightarrow> string \<Rightarrow> jsnum option \<Rightarrow> reply \<times> server" where
  "handleNumberCalled sv ws roomId number =
     (case rooms sv roomId of
        None \<Rightarrow> (Error ''Game not active'', sv)
      | Some room \<Rightarrow>
          if \<not> r_active room then (Error ''Game not active'', sv)
          else if \<not> ws_isAdmin ws then (Error ''Admin only action'', sv)
          else
            (case number of
               None \<Rightarrow>
                 (Error (''Invalid number. Must be between 1 and '' @ maxNumberText (r_gameType room)), sv)
             | Some n \<Rightarrow>
                 if js_lt n (Fin 1) \<or> js_gt n (maxNumber (r_gameType room))
                 then (Error (''Invalid number. Must be between 1 and ''
                               @ maxNumberText (r_gameType room)), sv)
                 else if js_includes (r_calledNumbers room) n then (Error ''Number already called'', sv)
                 else (Sent ''number_called'',
                       sv\<lparr>rooms := (rooms sv)(roomId \<mapsto>
                            room\<lparr>r_calledNumbers := r_calledNumbers room @ [n]\<rparr>)\<rparr>)))"

definition handleMark ::
    "server \<Rightarrow> wsock \<Rightarrow> string \<Rightarrow> jsnum option \<Rightarrow> bool \<Rightarrow> reply \<times> server" where
  "handleMark sv ws playerId number marked =
     (case players sv playerId of
        None \<Rightarrow> (Silent, sv)
      | Some player \<Rightarrow>
          if \<not> str_truthy (p_roomId player) then (Error ''Not in a room'', sv)
          else
            (case rooms sv (the (p_roomId player)) of
               None \<Rightarrow> (Error ''Game not active'', sv)
             | Some room \<Rightarrow>
                 if \<not> r_active room then (Error ''Game not active'', sv)
                 else
                   (case number of
                      None \<Rightarrow> (Error ''Invalid number'', sv)
                    | Some n \<Rightarrow>
                        if js_lt n (Fin 1) then (Error ''Invalid number'', sv)
                        else
                          let player' = player\<lparr>p_markedNumbers :=
                                (if marked then numset_add n (p_markedNumbers player)
                                 else numset_delete n (p_markedNumbers player))\<rparr>
                          in (Sent ''mark_confirmed'',
                              sv\<lparr>players := (players sv)(playerId \<mapsto> player')\<rparr>))))"

definition getRequiredNumbersForPattern :: "string \<Rightarrow> string \<Rightarrow> jsnum list" where
  "getRequiredNumbersForPattern pattern gameType =
     (if pattern = ''line'' then map Fin [1, 2, 3, 4, 5]
      else if pattern = ''two-lines'' then map Fin [1, 2, 3, 4, 5, 6, 7, 8, 9, 10]
      else if pattern = ''full-house'' then map Fin [1, 2, 3, 4, 5]
      else if pattern = ''coverall'' then map Fin [1, 2, 3, 4, 5, 6, 7, 8, 9, 10]
      else [])"

definition verifyWin :: "player \<Rightarrow> string \<Rightarrow> room \<Rightarrow> bool" where
  "verifyWin player pattern room =
     (let requiredNumbers = getRequiredNumbersForPattern pattern (r_gameType room);
          hasAllNumbers = list_all (\<lambda>num. js_includes (p_markedNumbers player) num) requiredNumbers
      in hasAllNumbers \<and> 0 < length requiredNumbers)"

text \<open>
  \<open>calculateWinAmount\<close> looks the pattern up in an object literal, so a pattern that
  names a property of \<open>Object.prototype\<close> finds that property: a function or an object,
  truthy, and \<open>NaN\<close> as a factor.
\<close>

definition objectPrototypeKeys :: "string list" where
  "objectPrototypeKeys =
     [''constructor'', ''hasOwnProperty'', ''isPrototypeOf'', ''propertyIsEnumerable'',
      ''toLocaleString'', ''toString'', ''valueOf'', ''__proto__'', ''__defineGetter__'',
      ''__defineSetter__'', ''__lookupGetter__'', ''__lookupSetter__'']"

definition calculateWinAmount :: "room \<Rightarrow> string \<Rightarrow> jsnum" where
  "calculateWinAmount room pattern =
     (let baseAmount = js_mul (r_stake room) (Fin (of_nat (length (r_players room))));
          multiplier = (if pattern = ''line'' then Fin 3
                        else if pattern = ''two-lines'' then Fin 5
                        else if pattern = ''full-house'' then Fin 10
                        else if pattern = ''coverall'' then Fin 20
                        else if pattern \<in> set objectPrototypeKeys then NaN
                        else Fin 1)
      in js_floor (js_mul (js_mul baseAmount multiplier) (js_number (8 / 10))))"

definition handleWin ::
    "server \<Rightarrow> wsock \<Rightarrow> string \<Rightarrow> string \<Rightarrow> jsnum option \<Rightarrow> int \<Rightarrow> reply \<times> server" where
  "handleWin sv ws playerId pattern amount now =
     (case players sv playerId of
        None \<Rightarrow> (Error ''Player not in room'', sv)
      | Some player \<Rightarrow>
          if \<not> str_truthy (p_roomId player) then (Error ''Player not in room'', sv)
          else
            (case rooms sv (the (p_roomId player)) of
               None \<Rightarrow> (Error ''Game not active'', sv)
             | Some room \<Rightarrow>
                 if \<not> r_active room then (Error ''Game not active'', sv)
                 else if \<not> verifyWin player pattern room then (Error ''Invalid win claim'', sv)
                 else
                   let winAmount = (if js_truthy (num_of amount) then num_of amount
                                    else calculateWinAmount room pattern);
                       w = \<lparr>w_playerId = playerId, w_name = p_name player, w_pattern = pattern,
                            w_amount = winAmount, w_timestamp = now\<rparr>;
                       room' = room\<lparr>r_winners := r_winners room @ [w]\<rparr>;
                       player' = player\<lparr>p_wonAmount := Some (js_add (or0 (p_wonAmount player)) winAmount),
                                   p_balance := Some (js_add (or0 (p_balance player)) winAmount)\<rparr>
                   in (Sent ''win_confirmed'',
                       sv\<lparr>rooms := (rooms sv)(the (p_roomId player) \<mapsto> room'),
                          players := (players sv)(playerId \<mapsto> player')\<rparr>)))"

definition handlePayment :: "server \<Rightarrow> wsock \<Rightarrow> string \<Rightarrow> jsnum option \<Rightarrow> reply \<times> server" where
  "handlePayment sv ws playerId amount =
     (case players sv playerId of
        None \<Rightarrow> (Silent, sv)
      | Some player \<Rightarrow>
          (case amount of
             None \<Rightarrow> (Error ''Invalid amount'', sv)
           | Some a \<Rightarrow>
               if js_le a (Fin 0) then (Error ''Invalid amount'', sv)
               else
                 let player' = player\<lparr>p_payment := js_add (num_or0 (p_payment player)) a,
                                 p_balance := Some (js_add (or0 (p_balance player)) a)\<rparr>
                 in (Sent ''payment_confirmed'',
                     sv\<lparr>players := (players sv)(playerId \<mapsto> player')\<rparr>)))"

text \<open>
  \<open>String.prototype.trim\<close>. A string is the list of its code units, and the type \<open>char\<close>
  holds the code units below 256; the white space and line terminators among them are
  these seven.
\<close>

definition is_space :: "char \<Rightarrow> bool" where
  "is_space c = (c = CHR 0x20 \<or> c = CHR 0x09 \<or> c = CHR 0x0A \<or> c = CHR 0x0B
                 \<or> c = CHR 0x0C \<or> c = CHR 0x0D \<or> c = CHR 0xA0)"

definition trim :: "string \<Rightarrow> string" where
  "trim str = rev (dropWhile is_space (rev (dropWhile is_space str)))"

definition handleWithdraw ::
    "server \<Rightarrow> wsock \<Rightarrow> string \<Rightarrow> jsnum option \<Rightarrow> string option \<Rightarrow> reply \<times> server" where
  "handleWithdraw sv ws playerId amount accountNumber =
     (case players sv playerId of
        None \<Rightarrow> (Error ''Player not found'', sv)
      | Some player \<Rightarrow>
          (case amount of
             None \<Rightarrow> (Error ''Invalid amount'', sv)
           | Some a \<Rightarrow>
               if js_le a (Fin 0) then (Error ''Invalid amount'', sv)
               else if js_gt a (or0 (p_balance player)) then (Error ''Insufficient balance'', sv)
               else if \<not> str_truthy accountNumber \<or> length (trim (the accountNumber)) < 5
               then (Error ''Invalid account number'', sv)
               else
                 let player' = player\<lparr>p_balance := Some (js_sub (or0 (p_balance player)) a),
                                 p_withdrawn := Some (js_add (or0 (p_withdrawn player)) a)\<rparr>
                 in (Sent ''withdrawal_processing'',
                     sv\<lparr>players := (players sv)(playerId \<mapsto> player')\<rparr>)))"

definition handlePlayerDisconnect :: "server \<Rightarrow> string \<Rightarrow> server" where
  "handlePlayerDisconnect sv playerId =
     (case players sv playerId of
        None \<Rightarrow> sv
      | Some player \<Rightarrow>
          let rooms' =
                (if str_truthy (p_roomId player) then
                   (case rooms sv (the (p_roomId player)) of
                      None \<Rightarrow> rooms sv
                    | Some room \<Rightarrow>
                        let room' = room\<lparr>r_players := set_delete playerId (r_players room)\<rparr>;
                            rooms1 = (rooms sv)(the (p_roomId player) \<mapsto> room')
                        in if length (r_players room') = 0 then rooms1(r_id room := None)
                           else rooms1)
                 else rooms sv)
          in sv\<lparr>rooms := rooms', players := (players sv)(playerId := None)\<rparr>)"

definition handleWebSocketClose :: "server \<Rightarrow> wsock \<Rightarrow> server" where
  "handleWebSocketClose sv ws =
     (if ws_isAdmin ws
      then sv\<lparr>adminConnections := set_delete (ws_sock ws) (adminConnections sv)\<rparr>
      else if \<not> str_truthy (ws_playerId ws) then sv
      else handlePlayerDisconnect sv (the (ws_playerId ws)))"

text \<open>
  \<open>handleHello\<close>: the outcome of \<open>validateAdminToken\<close> is an input (\<open>None\<close>: the message
  carries no token).
\<close>

definition handleHello ::
    "server \<Rightarrow> wsock \<Rightarrow> string \<Rightarrow> bool \<Rightarrow> bool option \<Rightarrow> reply \<times> server" where
  "handleHello sv ws playerId isAdmin tokenValid =
     (if isAdmin \<and> tokenValid \<noteq> None then
        (if tokenValid = Some False then (Error ''Invalid admin token'', sv)
         else (Sent ''welcome'',
               sv\<lparr>adminConnections := set_add (ws_sock ws) (adminConnections sv)\<rparr>))
      else
        (case players sv playerId of
           None \<Rightarrow> (Sent ''welcome'', sv)
         | Some player \<Rightarrow>
             (Sent ''welcome'',
              sv\<lparr>players := (players sv)(playerId \<mapsto> player\<lparr>p_socket := Some (ws_sock ws)\<rparr>)\<rparr>)))"

text \<open>
  The commands of an admin carry their arguments in the object \<open>data\<close> of the message
  (\<open>None\<close>: the message has none). A handler that reads a field of a missing \<open>data\<close>
  throws; the listener of the endpoint catches that and answers "Internal server error",
  with the state as it was.
\<close>

record admin_data =
  d_roomId :: "string option"
  d_playerId :: "string option"
  d_message :: "string option"

definition handleAdminBroadcast :: "server \<Rightarrow> wsock \<Rightarrow> admin_data option \<Rightarrow> reply \<times> server" where
  "handleAdminBroadcast sv ws data =
     (case data of
        None \<Rightarrow> (Error ''Internal server error'', sv)
      | Some d \<Rightarrow>
          if \<not> str_truthy (d_message d) then (Error ''Invalid broadcast message'', sv)
          else (Sent ''admin_command_result'', sv))"

definition handleKickPlayer :: "server \<Rightarrow> wsock \<Rightarrow> admin_data option \<Rightarrow> reply \<times> server" where
  "handleKickPlayer sv ws data =
     (case data of
        None \<Rightarrow> (Error ''Internal server error'', sv)
      | Some d \<Rightarrow>
          if \<not> str_truthy (d_playerId d) then (Error ''Player ID required'', sv)
          else if players sv (the (d_playerId d)) = None then (Error ''Player not found'', sv)
          else (Sent ''admin_command_result'', handlePlayerDisconnect sv (the (d_playerId d))))"

text \<open>
  \<open>handleGetPlayers\<close> for a room reads a field of every member's player; a member that is
  not registered makes it throw.
\<close>

definition handleGetPlayers :: "server \<Rightarrow> wsock \<Rightarrow> admin_data option \<Rightarrow> reply \<times> server" where
  "handleGetPlayers sv ws data =
     (case data of
        None \<Rightarrow> (Error ''Internal server error'', sv)
      | Some d \<Rightarrow>
          if str_truthy (d_roomId d) then
            (case rooms sv (the (d_roomId d)) of
               None \<Rightarrow> (Sent ''players_list'', sv)
             | Some room \<Rightarrow>
                 if list_all (\<lambda>playerId. players sv playerId \<noteq> None) (r_players room)
                 then (Sent ''players_list'', sv)
                 else (Error ''Internal server error'', sv))
          else (Sent ''players_list'', sv))"

definition handleEndGame :: "server \<Rightarrow> wsock \<Rightarrow> admin_data option \<Rightarrow> reply \<times> server" where
  "handleEndGame sv ws data =
     (case data of
        None \<Rightarrow> (Error ''Internal server error'', sv)
      | Some d \<Rightarrow>
          if \<not> str_truthy (d_roomId d) then (Error ''Room ID required'', sv)
          else
            (case rooms sv (the (d_roomId d)) of
               None \<Rightarrow> (Error ''Room not found'', sv)
             | Some room \<Rightarrow>
                 (Sent ''admin_command_result'',
                  sv\<lparr>rooms := (rooms sv)(the (d_roomId d) \<mapsto> room\<lparr>r_active := False\<rparr>)\<rparr>)))"

definition clearMarks :: "(string \<rightharpoonup> player) \<Rightarrow> string \<Rightarrow> (string \<rightharpoonup> player)" where
  "clearMarks pm playerId =
     (case pm playerId of
        None \<Rightarrow> pm
      | Some p \<Rightarrow> pm(playerId \<mapsto> p\<lparr>p_markedNumbers := []\<rparr>))"

definition handleResetRoom :: "server \<Rightarrow> wsock \<Rightarrow> admin_data option \<Rightarrow> reply \<times> server" where
  "handleResetRoom sv ws data =
     (case data of
        None \<Rightarrow> (Error ''Internal server error'', sv)
      | Some d \<Rightarrow>
          if \<not> str_truthy (d_roomId d) then (Error ''Room ID required'', sv)
          else
            (case rooms sv (the (d_roomId d)) of
               None \<Rightarrow> (Error ''Room not found'', sv)
             | Some room \<Rightarrow>
                 (Sent ''admin_command_result'',
                  sv\<lparr>rooms := (rooms sv)(the (d_roomId d) \<mapsto>
                          room\<lparr>r_calledNumbers := [], r_winners := []\<rparr>),
                     players := foldl clearMarks (players sv) (r_players room)\<rparr>)))"

definition handleAdminCommand ::
    "server \<Rightarrow> wsock \<Rightarrow> string \<Rightarrow> admin_data option \<Rightarrow> reply \<times> server" where
  "handleAdminCommand sv ws command data =
     (if \<not> ws_isAdmin ws then (Error ''Admin only action'', sv)
      else if command = ''broadcast'' then handleAdminBroadcast sv ws data
      else if command = ''kick_player'' then handleKickPlayer sv ws data
      else if command = ''get_stats'' then (Sent ''stats'', sv)
      else if command = ''get_players'' then handleGetPlayers sv ws data
      else if command = ''end_game'' then handleEndGame sv ws data
      else if command = ''reset_room'' then handleResetRoom sv ws data
      else (Error ''Unknown admin command'', sv))"

section \<open>Session server, first variant (unnamed/part_001)\<close>

text \<open>
  The same handlers in the variant of unnamed/part_001 (the first server program of auth.ts
  has the same text): joining charges no stake there and leaving refunds none.
\<close>

definition handleLeaveRoom_part001 :: "server \<Rightarrow> wsock \<Rightarrow> string \<Rightarrow> string \<Rightarrow> reply \<times> server" where
  "handleLeaveRoom_part001 sv ws playerId roomId =
     (if players sv playerId = None \<or> rooms sv roomId = None then (Silent, sv)
      else (Sent ''room_left'', removeMember sv playerId roomId))"

definition handleWebSocketClose_part001 :: "server \<Rightarrow> wsock \<Rightarrow> server" where
  "handleWebSocketClose_part001 sv ws =
     (if ws_isAdmin ws
      then sv\<lparr>adminConnections := set_delete (ws_sock ws) (adminConnections sv)\<rparr>
      else if \<not> str_truthy (ws_playerId ws) then sv
      else handlePlayerDisconnect sv (the (ws_playerId ws)))"

section \<open>Dispatch (services/broadcaster.ts and the session server)\<close>

text \<open>
  An endpoint of the network is open when its \<open>readyState\<close> is 1, and its \<open>send\<close> may throw.
  A fan-out returns the deliveries it made, in order: the endpoint and the message.
  \<open>roomSend\<close> is the body of the loop over the members, the same in both programs;
  \<open>broadcastToRoom\<close> is the function of services/broadcaster.ts, which counts the sends,
  \<open>broadcastToRoom_server\<close> the one of the session server, which goes on to the admin.
\<close>

record endpoint =
  readyState :: nat
  sendThrows :: bool

type_synonym network = "sock \<Rightarrow> endpoint"

definition roomSend ::
    "network \<Rightarrow> (string \<rightharpoonup> player) \<Rightarrow> message \<Rightarrow> nat \<times> (sock \<times> message) list \<Rightarrow> string
     \<Rightarrow> nat \<times> (sock \<times> message) list" where
  "roomSend net pm msg acc playerId =
     (case pm playerId of
        None \<Rightarrow> acc
      | Some p \<Rightarrow>
          (case p_socket p of
             None \<Rightarrow> acc
           | Some sk \<Rightarrow>
               if readyState (net sk) = 1
               then (if sendThrows (net sk) then acc else (fst acc + 1, snd acc @ [(sk, msg)]))
               else acc))"

definition broadcastToRoom ::
    "network \<Rightarrow> stores \<Rightarrow> string \<Rightarrow> message \<Rightarrow> nat \<times> (sock \<times> message) list" where
  "broadcastToRoom net s roomId msg =
     (case roomModel s roomId of
        None \<Rightarrow> (0, [])
      | Some room \<Rightarrow> foldl (roomSend net (playerModel s) msg) (0, []) (r_players room))"

definition broadcastToRoom_server ::
    "network \<Rightarrow> server \<Rightarrow> string \<Rightarrow> message \<Rightarrow> (sock \<times> message) list" where
  "broadcastToRoom_server net sv roomId msg =
     (case rooms sv roomId of
        None \<Rightarrow> []
      | Some room \<Rightarrow>
          let sent = snd (foldl (roomSend net (players sv) msg) (0, []) (r_players room))
          in (case r_admin room of
                None \<Rightarrow> sent
              | Some a \<Rightarrow>
                  if readyState (net a) = 1
                  then (if sendThrows (net a) then sent else sent @ [(a, msg)])
                  else sent))"

text \<open>
  The audience in the words of the specification: the endpoints of the members, the bound
  admin endpoint, and the endpoints that take a message (open, and the send succeeds).
\<close>

definition memberEndpoints :: "(string \<rightharpoonup> player) \<Rightarrow> room \<Rightarrow> sock list" where
  "memberEndpoints pm room =
     List.map_filter (\<lambda>playerId. case pm playerId of None \<Rightarrow> None | Some p \<Rightarrow> p_socket p)
       (r_players room)"

definition adminEndpoint :: "room \<Rightarrow> sock list" where
  "adminEndpoint room = (case r_admin room of None \<Rightarrow> [] | Some a \<Rightarrow> [a])"

definition delivers :: "network \<Rightarrow> sock \<Rightarrow> bool" where
  "delivers net sk = (readyState (net sk) = 1 \<and> \<not> sendThrows (net sk))"

section \<open>Rate-limited broadcast (services/broadcaster.ts)\<close>

text \<open>
  \<open>rateLimitedBroadcast\<close> and \<open>processQueuedMessages\<close> run on the room store and on the
  timers of the runtime. The runtime state holds the stores, the pending timeouts (the
  handle \<open>setTimeout\<close> returned and the room id its callback will flush), the last handle
  issued (handles are positive) and the calls of \<open>broadcastToRoom\<close> made so far, oldest
  first. The result of \<open>rateLimitedBroadcast\<close> is \<open>NoRoom\<close> for \<open>false\<close>, \<open>Queued\<close> for
  \<open>true\<close> and \<open>Immediate\<close> for the count \<open>broadcastToRoom\<close> returns. The composite
  envelope \<open>{type: "batch", messages}\<close> is \<open>Batch messages\<close>. \<open>processQueuedMessages\<close>
  on a room that is gone assigns to a property of \<open>undefined\<close>, which throws.
\<close>

record runtime =
  rt_stores :: stores
  rt_timers :: "(nat \<times> string) list"
  rt_nextHandle :: nat
  rt_broadcasts :: "(string \<times> message) list"

datatype rl_result = NoRoom | Queued | Immediate

definition timer_unset :: "nat option \<Rightarrow> bool" where
  "timer_unset t = (case t of None \<Rightarrow> True | Some h \<Rightarrow> h = 0)"

definition putRoom :: "runtime \<Rightarrow> string \<Rightarrow> room \<Rightarrow> runtime" where
  "putRoom rt roomId room =
     rt\<lparr>rt_stores := (rt_stores rt)\<lparr>roomModel := (roomModel (rt_stores rt))(roomId \<mapsto> room)\<rparr>\<rparr>"

definition callBroadcastToRoom :: "runtime \<Rightarrow> string \<Rightarrow> message \<Rightarrow> runtime" where
  "callBroadcastToRoom rt roomId msg = rt\<lparr>rt_broadcasts := rt_broadcasts rt @ [(roomId, msg)]\<rparr>"

definition batchBroadcast :: "runtime \<Rightarrow> string \<Rightarrow> message list \<Rightarrow> bool \<times> runtime" where
  "batchBroadcast rt roomId messages =
     (case roomModel (rt_stores rt) roomId of
        None \<Rightarrow> (False, rt)
      | Some room \<Rightarrow> (True, callBroadcastToRoom rt roomId (Batch messages)))"

definition rateLimitedBroadcast ::
    "runtime \<Rightarrow> string \<Rightarrow> message \<Rightarrow> jsnum option \<Rightarrow> int \<Rightarrow> rl_result \<times> runtime" where
  "rateLimitedBroadcast rt roomId msg minInterval now =
     (case roomModel (rt_stores rt) roomId of
        None \<Rightarrow> (NoRoom, rt)
      | Some room \<Rightarrow>
          let mi = (case minInterval of None \<Rightarrow> Fin 100 | Some m \<Rightarrow> m);
              lastB = (case r_lastBroadcast room of None \<Rightarrow> 0 | Some t \<Rightarrow> t)
          in if js_lt (js_sub (Fin (of_int now)) (Fin (of_int lastB))) mi then
               let queued = (case r_queuedMessages room of None \<Rightarrow> [] | Some q \<Rightarrow> q)
                              @ [(msg, now)];
                   h = Suc (rt_nextHandle rt)
               in if timer_unset (r_broadcastTimeout room)
                  then (Queued,
                        (putRoom rt roomId
                           (room\<lparr>r_queuedMessages := Some queued, r_broadcastTimeout := Some h\<rparr>))
                          \<lparr>rt_timers := rt_timers rt @ [(h, roomId)], rt_nextHandle := h\<rparr>)
                  else (Queued, putRoom rt roomId (room\<lparr>r_queuedMessages := Some queued\<rparr>))
             else (Immediate,
                   callBroadcastToRoom (putRoom rt roomId (room\<lparr>r_lastBroadcast := Some now\<rparr>))
                     roomId msg))"

definition processQueuedMessages :: "runtime \<Rightarrow> string \<Rightarrow> int \<Rightarrow> string + runtime" where
  "processQueuedMessages rt roomId now =
     (case roomModel (rt_stores rt) roomId of
        None \<Rightarrow> Inl ''TypeError''
      | Some room \<Rightarrow>
          (case r_queuedMessages room of
             None \<Rightarrow> Inr (putRoom rt roomId (room\<lparr>r_broadcastTimeout := None\<rparr>))
           | Some messagesToSend \<Rightarrow>
               if length messagesToSend = 0
               then Inr (putRoom rt roomId (room\<lparr>r_broadcastTimeout := None\<rparr>))
               else
                 let rt1 = putRoom rt roomId (room\<lparr>r_queuedMessages := Some []\<rparr>);
                     rt2 = (if 1 < length messagesToSend
                            then snd (batchBroadcast rt1 roomId (map fst messagesToSend))
                            else if length messagesToSend = 1
                            then callBroadcastToRoom rt1 roomId (fst (messagesToSend ! 0))
                            else rt1)
                 in Inr (putRoom rt2 roomId
                           (room\<lparr>r_queuedMessages := Some [], r_lastBroadcast := Some now,
                                  r_broadcastTimeout := None\<rparr>))))"

text \<open>
  \<open>fireTimer\<close> is the runtime running the callback of a pending timeout: the timeout is
  no longer pending, and an exception of the callback is reported with the state as the
  callback left it.
\<close>

definition fireTimer :: "runtime \<Rightarrow> nat \<Rightarrow> int \<Rightarrow> string option \<times> runtime" where
  "fireTimer rt h now =
     (case filter (\<lambda>t. fst t = h) (rt_timers rt) of
        [] \<Rightarrow> (None, rt)
      | t # _ \<Rightarrow>
          let rt0 = rt\<lparr>rt_timers := filter (\<lambda>t. fst t \<noteq> h) (rt_timers rt)\<rparr>
          in (case processQueuedMessages rt0 (snd t) now of
                Inl e \<Rightarrow> (Some e, rt0)
              | Inr rt' \<Rightarrow> (None, rt')))"

text \<open>
  \<open>cleanupBroadcastTimeouts\<close> goes through the rooms of the store (\<open>getAll\<close>; their ids
  are an argument here): a room with a timeout set has it cleared (\<open>clearTimeout\<close> takes
  the handle off the pending timeouts) and reset; its queue is not touched.
\<close>

definition cleanupRoom :: "runtime \<Rightarrow> string \<Rightarrow> runtime" where
  "cleanupRoom rt roomId =
     (case roomModel (rt_stores rt) roomId of
        None \<Rightarrow> rt
      | Some room \<Rightarrow>
          if timer_unset (r_broadcastTimeout room) then rt
          else (putRoom rt roomId (room\<lparr>r_broadcastTimeout := None\<rparr>))
                 \<lparr>rt_timers := filter (\<lambda>t. Some (fst t) \<noteq> r_broadcastTimeout room) (rt_timers rt)\<rparr>)"

definition cleanupBroadcastTimeouts :: "runtime \<Rightarrow> string list \<Rightarrow> runtime" where
  "cleanupBroadcastTimeouts rt roomIds = foldl cleanupRoom rt roomIds"

text \<open>An operation of the room store, run between the broadcasts.\<close>

definition withStores :: "runtime \<Rightarrow> stores \<Rightarrow> runtime" where
  "withStores rt s = rt\<lparr>rt_stores := s\<rparr>"

text \<open>
  What is observed of a room: its queued messages in order, the handles of its pending
  flushes, and what a flush of a queue sends.
\<close>

definition queueOf :: "runtime \<Rightarrow> string \<Rightarrow> message list" where
  "queueOf rt roomId =
     (case roomModel (rt_stores rt) roomId of
        None \<Rightarrow> []
      | Some room \<Rightarrow> (case r_queuedMessages room of None \<Rightarrow> [] | Some q \<Rightarrow> map fst q))"

definition pendingFlushes :: "runtime \<Rightarrow> string \<Rightarrow> nat list" where
  "pendingFlushes rt roomId = map fst (filter (\<lambda>t. snd t = roomId) (rt_timers rt))"

definition envelope :: "message list \<Rightarrow> message" where
  "envelope ms = (if length ms = 1 then ms ! 0 else Batch ms)"

definition timeoutOf :: "runtime \<Rightarrow> string \<Rightarrow> nat option" where
  "timeoutOf rt roomId =
     (case roomModel (rt_stores rt) roomId of None \<Rightarrow> None | Some room \<Rightarrow> r_broadcastTimeout room)"

definition rl_within :: "runtime \<Rightarrow> string \<Rightarrow> jsnum option \<Rightarrow> int \<Rightarrow> bool" where
  "rl_within rt roomId minInterval now =
     (case roomModel (rt_stores rt) roomId of
        None \<Rightarrow> False
      | Some room \<Rightarrow>
          js_lt (js_sub (Fin (of_int now))
                   (Fin (of_int (case r_lastBroadcast room of None \<Rightarrow> 0 | Some t \<Rightarrow> t))))
            (case minInterval of None \<Rightarrow> Fin 100 | Some m \<Rightarrow> m))"

definition rl_schedules :: "runtime \<Rightarrow> string \<Rightarrow> jsnum option \<Rightarrow> int \<Rightarrow> bool" where
  "rl_schedules rt roomId minInterval now =
     (rl_within rt roomId minInterval now \<and> timer_unset (timeoutOf rt roomId))"

text \<open>
  The states of the runtime. A fresh state has no timeout pending and no room with a queue
  or a timeout. From there the runtime goes on by rate-limited calls, by callbacks of
  pending timeouts and by the operations of the room store; \<open>rl_reachable True\<close> also
  admits \<open>cleanupBroadcastTimeouts\<close>, \<open>rl_reachable False\<close> are the states reached
  without it. Rooms are those of the fresh state: \<open>create\<close> puts a room without the three
  broadcast fields under an id that was never used, and \<open>update\<close>, which can assign any
  field, is left out.
\<close>

definition rl_fresh :: "runtime \<Rightarrow> bool" where
  "rl_fresh rt =
     (rt_timers rt = []
      \<and> (\<forall>roomId room. roomModel (rt_stores rt) roomId = Some room \<longrightarrow>
            r_broadcastTimeout room = None \<and> r_queuedMessages room = None))"

inductive rl_reachable :: "bool \<Rightarrow> runtime \<Rightarrow> bool" where
  fresh: "rl_fresh rt \<Longrightarrow> rl_reachable c rt"
| call: "rl_reachable c rt \<Longrightarrow>
    rl_reachable c (snd (rateLimitedBroadcast rt roomId msg minInterval now))"
| fire: "rl_reachable c rt \<Longrightarrow> rl_reachable c (snd (fireTimer rt h now))"
| cleanup: "rl_reachable True rt \<Longrightarrow> set roomIds = dom (roomModel (rt_stores rt)) \<Longrightarrow>
    distinct roomIds \<Longrightarrow> rl_reachable True (cleanupBroadcastTimeouts rt roomIds)"
| remove_room: "rl_reachable c rt \<Longrightarrow>
    rl_reachable c (withStores rt (snd (remove (rt_stores rt) roomId)))"
| remove_player: "rl_reachable c rt \<Longrightarrow>
    rl_reachable c (withStores rt (snd (removePlayer (rt_stores rt) roomId playerId)))"
| add_player: "rl_reachable c rt \<Longrightarrow>
    rl_reachable c (withStores rt (snd (addPlayer (rt_stores rt) roomId playerId)))"
| start_game: "rl_reachable c rt \<Longrightarrow>
    rl_reachable c (withStores rt (snd (startGame (rt_stores rt) roomId now)))"
| end_game: "rl_reachable c rt \<Longrightarrow>
    rl_reachable c (withStores rt (snd (endGame (rt_stores rt) roomId now)))"
| pause_game: "rl_reachable c rt \<Longrightarrow>
    rl_reachable c (withStores rt (snd (pauseGame (rt_stores rt) roomId)))"
| resume_game: "rl_reachable c rt \<Longrightarrow>
    rl_reachable c (withStores rt (snd (resumeGame (rt_stores rt) roomId)))"
| call_number: "rl_reachable c rt \<Longrightarrow>
    rl_reachable c (withStores rt (snd (callNumber (rt_stores rt) roomId n)))"
| add_winner: "rl_reachable c rt \<Longrightarrow>
    rl_reachable c (withStores rt (snd (addWinner (rt_stores rt) roomId playerId nm pat amt now)))"

text \<open>
  The invariant of these states: handles are not issued twice; a pending timeout has a
  handle that was issued, is the only one for its room id, and is the one its room refers
  to if the room is still stored; the timeout a room refers to is pending. Without
  \<open>cleanupBroadcastTimeouts\<close>, a room that refers to no timeout has an empty queue.
  \<open>rl_frame\<close> is what the operations of the room store do to the broadcast fields: a room
  is deleted or keeps them.
\<close>

definition rl_inv :: "runtime \<Rightarrow> bool" where
  "rl_inv rt =
     (distinct (map fst (rt_timers rt))
      \<and> (\<forall>t \<in> set (rt_timers rt).
            0 < fst t \<and> fst t \<le> rt_nextHandle rt
            \<and> (roomModel (rt_stores rt) (snd t) \<noteq> None \<longrightarrow> timeoutOf rt (snd t) = Some (fst t)))
      \<and> (\<forall>roomId h. timeoutOf rt roomId = Some h \<longrightarrow> (h, roomId) \<in> set (rt_timers rt))
      \<and> (\<forall>t \<in> set (rt_timers rt). \<forall>t' \<in> set (rt_timers rt). snd t = snd t' \<longrightarrow> t = t'))"

definition rl_steady :: "runtime \<Rightarrow> bool" where
  "rl_steady rt = (\<forall>roomId. timeoutOf rt roomId = None \<longrightarrow> queueOf rt roomId = [])"

definition rl_frame :: "stores \<Rightarrow> stores \<Rightarrow> bool" where
  "rl_frame s s' =
     (\<forall>roomId r'. roomModel s' roomId = Some r' \<longrightarrow>
        (\<exists>r. roomModel s roomId = Some r
           \<and> r_queuedMessages r' = r_queuedMessages r
           \<and> r_broadcastTimeout r' = r_broadcastTimeout r))"

section \<open>Payout: the reference definition\<close>










section \<open>Observations\<close>

definition balanceOf :: "stores \<Rightarrow> string \<Rightarrow> jsnum option" where
  "balanceOf s playerId = (case playerModel s playerId of None \<Rightarrow> None | Some p \<Rightarrow> p_balance p)"

definition winnerAmounts :: "stores \<Rightarrow> string \<Rightarrow> jsnum list" where
  "winnerAmounts s roomId =
     (case roomModel s roomId of None \<Rightarrow> [] | Some r \<Rightarrow> map w_amount (r_winners r))"

text \<open>No room of the server has a number twice in its called sequence.\<close>

definition calledDistinct :: "server \<Rightarrow> bool" where
  "calledDistinct sv = (\<forall>roomId r. rooms sv roomId = Some r \<longrightarrow> distinct (r_calledNumbers r))"

section \<open>Reachable states of the session server\<close>

text \<open>
  The states the server reaches from its start by handling messages, closing endpoints and
  sweeping inactive players (\<open>cleanupInactivePlayers\<close> disconnects players; which ones is
  not modelled, so any player may be swept).
\<close>

definition initialServer :: server where
  "initialServer = \<lparr>rooms = Map.empty, players = Map.empty, adminConnections = []\<rparr>"

inductive reachable :: "server \<Rightarrow> bool" where
  init: "reachable initialServer"
| hello: "reachable sv \<Longrightarrow> reachable (snd (handleHello sv ws playerId isAdmin tokenValid))"
| register: "reachable sv \<Longrightarrow>
    reachable (snd (handleRegister sv ws playerId nm ph stake gameType pay now))"
| join_room: "reachable sv \<Longrightarrow> reachable (snd (handleJoinRoom sv ws playerId roomId now))"
| leave_room: "reachable sv \<Longrightarrow> reachable (snd (handleLeaveRoom sv ws playerId roomId))"
| start_game: "reachable sv \<Longrightarrow> reachable (snd (handleStartGame sv ws roomId gameType stake))"
| number_called: "reachable sv \<Longrightarrow> reachable (snd (handleNumberCalled sv ws roomId number))"
| mark: "reachable sv \<Longrightarrow> reachable (snd (handleMark sv ws playerId number marked))"
| win: "reachable sv \<Longrightarrow> reachable (snd (handleWin sv ws playerId pattern amount now))"
| payment: "reachable sv \<Longrightarrow> reachable (snd (handlePayment sv ws playerId amount))"
| withdraw: "reachable sv \<Longrightarrow> reachable (snd (handleWithdraw sv ws playerId amount accountNumber))"
| admin_command: "reachable sv \<Longrightarrow> reachable (snd (handleAdminCommand sv ws command data))"
| close: "reachable sv \<Longrightarrow> reachable (handleWebSocketClose sv ws)"
| cleanup: "reachable sv \<Longrightarrow> reachable (handlePlayerDisconnect sv playerId)"

section \<open>Example data\<close>

definition alice :: player where
  "alice = \<lparr>p_id = ''P1'', p_name = ''Alice'', p_phone = ''0911000001'', p_stake = Fin 50,
     p_gameType = ''75ball'', p_payment = Fin 50, p_wonAmount = None, p_withdrawn = None,
     p_balance = Some (Fin 50), p_joinedAt = 1000, p_socket = Some 1, p_roomId = Some ''R1'',
     p_markedNumbers = [], p_lastActive = Some 1000\<rparr>"

definition bob :: player where
  "bob = \<lparr>p_id = ''P2'', p_name = ''Bob'', p_phone = ''0911000002'', p_stake = Fin 50,
     p_gameType = ''75ball'', p_payment = Fin 50, p_wonAmount = None, p_withdrawn = None,
     p_balance = Some (Fin 0), p_joinedAt = 1001, p_socket = Some 2, p_roomId = Some ''R1'',
     p_markedNumbers = [], p_lastActive = Some 1001\<rparr>"

definition room1 :: room where
  "room1 = \<lparr>r_id = ''R1'', r_gameType = ''75ball'', r_stake = Fin 50,
     r_players = [''P1'', ''P2''], r_admin = Some 9, r_active = True, r_calledNumbers = [Fin 17],
     r_winners = [], r_createdAt = 900, r_startedAt = Some 1500, r_endedAt = None,
     r_lastBroadcast = None, r_queuedMessages = None, r_broadcastTimeout = None\<rparr>"

definition pm1 :: playerModel where
  "pm1 = [''P1'' \<mapsto> alice, ''P2'' \<mapsto> bob]"

definition rm1 :: roomModel where
  "rm1 = [''R1'' \<mapsto> room1]"

definition wAlice :: winner where
  "wAlice = \<lparr>w_playerId = ''P1'', w_name = ''Alice'', w_pattern = ''line'', w_amount = Fin 0,
     w_timestamp = 1600\<rparr>"



definition roomA :: room where
  "roomA = room1\<lparr>r_winners := [wAlice]\<rparr>"

definition sA :: stores where
  "sA = \<lparr>playerModel = pm1, roomModel = [''R1'' \<mapsto> roomA]\<rparr>"







text \<open>The room \<open>R1\<close> ended, resumed and ended again.\<close>

definition sEnded :: stores where
  "sEnded = snd (endGame sA ''R1'' 2000)"

definition sResumed :: stores where
  "sResumed = snd (resumeGame sEnded ''R1'')"

definition sEndedAgain :: stores where
  "sEndedAgain = snd (endGame sResumed ''R1'' 3000)"

definition adminWs :: wsock where
  "adminWs = \<lparr>ws_sock = 9, ws_playerId = Some ''admin_1'', ws_isAdmin = True\<rparr>"

definition aliceWs :: wsock where
  "aliceWs = \<lparr>ws_sock = 1, ws_playerId = Some ''P1'', ws_isAdmin = False\<rparr>"

definition bobWs :: wsock where
  "bobWs = \<lparr>ws_sock = 2, ws_playerId = Some ''P2'', ws_isAdmin = False\<rparr>"

text \<open>
  A run of the server: the admin connects, two players register and join a room, the admin
  starts the game and calls one number.
\<close>

definition run0 :: server where
  "run0 = snd (handleHello initialServer adminWs ''admin_1'' True (Some True))"

definition run1 :: server where
  "run1 = snd (handleRegister run0 aliceWs ''P1'' (Some ''Alice'') (Some ''0911000001'')
                 (Some (Fin 50)) (Some ''75ball'') (Some (Fin 50)) 1000)"

definition run2 :: server where
  "run2 = snd (handleRegister run1 bobWs ''P2'' (Some ''Bob'') (Some ''0911000002'')
                 (Some (Fin 50)) (Some ''75ball'') (Some (Fin 50)) 1001)"

definition run3 :: server where
  "run3 = snd (handleJoinRoom run2 aliceWs ''P1'' ''R1'' 1100)"

definition run4 :: server where
  "run4 = snd (handleJoinRoom run3 bobWs ''P2'' ''R1'' 1200)"

definition run5 :: server where
  "run5 = snd (handleStartGame run4 adminWs ''R1'' None None)"

definition run6 :: server where
  "run6 = snd (handleNumberCalled run5 adminWs ''R1'' (Some (Fin 17)))"

definition aliceJoined :: player where
  "aliceJoined = alice\<lparr>p_balance := Some (Fin 0), p_lastActive := None\<rparr>"

definition bobJoined :: player where
  "bobJoined = bob\<lparr>p_payment := Fin 50, p_balance := Some (Fin 0), p_lastActive := None\<rparr>"

definition roomStarted :: room where
  "roomStarted = (newRoom ''R1'' ''75ball'' (Fin 50) 1100)
     \<lparr>r_players := [''P1'', ''P2''], r_admin := Some 9, r_active := True\<rparr>"


definition sSolo :: stores where
  "sSolo = \<lparr>playerModel = pm1, roomModel = [''R1'' \<mapsto> room1\<lparr>r_players := [''P1'']\<rparr>]\<rparr>"

definition netUp :: network where
  "netUp = (\<lambda>sk. \<lparr>readyState = 1, sendThrows = False\<rparr>)"

definition netFlaky :: network where
  "netFlaky = (\<lambda>sk. \<lparr>readyState = 1, sendThrows = (sk = 1)\<rparr>)"

definition rtStart :: runtime where
  "rtStart = \<lparr>rt_stores = sA, rt_timers = [], rt_nextHandle = 0, rt_broadcasts = []\<rparr>"

definition rtB :: runtime where
  "rtB = snd (rateLimitedBroadcast rtStart ''R1'' (Msg ''n0'') None 1000)"

definition rtC :: runtime where
  "rtC = snd (rateLimitedBroadcast rtB ''R1'' (Msg ''n1'') None 1010)"

definition rtD :: runtime where
  "rtD = snd (rateLimitedBroadcast rtC ''R1'' (Msg ''n2'') None 1020)"

text \<open>
  Then \<open>cleanupBroadcastTimeouts\<close> runs, and a fourth message arrives after the interval.
\<close>

definition rtE :: runtime where
  "rtE = cleanupBroadcastTimeouts rtD [''R1'']"

definition rtF :: runtime where
  "rtF = snd (rateLimitedBroadcast rtE ''R1'' (Msg ''n3'') None 2000)"

section \<open>Arithmetic\<close>

text \<open>An integer below \<open>2 ^ 53\<close> in absolute value is a double: rounding leaves it as it is.\<close>

lemma bits_le: "n < 2 ^ k \<Longrightarrow> bits n \<le> int k"
proof (induction k arbitrary: n)
  case 0
  then show ?case by (simp add: bits.simps [of n])
next
  case (Suc k)
  show ?case
  proof (cases "n \<le> 0")
    case True
    then show ?thesis by (simp add: bits.simps [of n])
  next
    case False
    from Suc.prems have "n div 2 < 2 ^ k" by simp
    from Suc.IH [OF this] False show ?thesis by (simp add: bits.simps [of n])
  qed
qed

lemma pow2_nonpos: "e \<le> 0 \<Longrightarrow> pow2 e = 1 / 2 ^ nat (- e)"
  by (simp add: pow2_def)

lemma round_even_of_int: "round_even (of_int m) = m"
  by (simp add: round_even_def)

lemma floorlog2_of_int:
  assumes "0 < n" and "n < 2 ^ 53"
  shows "floorlog2 (of_int n) \<le> 52"
proof -
  from assms(2) have "bits n \<le> int 53" by (rule bits_le)
  moreover from assms have "(1::rat) \<le> of_int n" by simp
  ultimately show ?thesis by (simp add: floorlog2_def)
qed

lemma round_double_of_int:
  assumes "\<bar>n\<bar> < 2 ^ 53"
  shows "round_double (of_int n) = of_int n"
proof (cases "n = 0")
  case True
  then show ?thesis by (simp add: round_double_def round_even_def)
next
  case False
  let ?e = "ulp_exp (of_int n)"
  from False assms have "0 < \<bar>n\<bar>" "\<bar>n\<bar> < 2 ^ 53" by simp_all
  from floorlog2_of_int [OF this] have "floorlog2 \<bar>of_int n\<bar> \<le> 52"
    by simp
  then have e: "?e \<le> 0" by (simp add: ulp_exp_def)
  let ?k = "nat (- ?e)"
  have p: "pow2 ?e = 1 / 2 ^ ?k" using e by (rule pow2_nonpos)
  have "of_int n / pow2 ?e = (of_int (n * 2 ^ ?k) :: rat)"
    by (simp add: p)
  then have "round_even (of_int n / pow2 ?e) = n * 2 ^ ?k"
    by (simp only: round_even_of_int)
  then show ?thesis
    by (simp add: round_double_def p)
qed

lemma to_double_of_int:
  assumes "n \<noteq> 0" and "\<bar>n\<bar> < 2 ^ 53"
  shows "to_double s (of_int n) = Fin (of_int n)"
proof -
  have "\<bar>(of_int n :: rat)\<bar> < 2 ^ 53"
    using assms(2) by (metis of_int_abs of_int_less_numeral_power_cancel_iff)
  also have "\<dots> < (2 :: rat) ^ 1024" by simp
  finally have "\<not> (2 :: rat) ^ 1024 \<le> \<bar>of_int n\<bar>" by simp
  with assms show ?thesis
    by (simp add: to_double_def round_double_of_int Let_def del: power_strict_increasing_iff)
qed

lemma to_double_numeral [simp]:
  "(numeral k :: int) < 9007199254740992 \<Longrightarrow> to_double s (numeral k) = Fin (numeral k)"
  "(numeral k :: int) < 9007199254740992 \<Longrightarrow> to_double s (- numeral k) = Fin (- numeral k)"
  using to_double_of_int [of "numeral k" s] to_double_of_int [of "- numeral k" s] by simp_all

lemma to_double_0 [simp]: "to_double s 0 = signed_zero s"
  by (simp add: to_double_def round_double_def round_even_def Let_def)

lemma to_double_1 [simp]: "to_double s 1 = Fin 1" "to_double s (- 1) = Fin (- 1)"
  using to_double_of_int [of 1 s] to_double_of_int [of "- 1" s] by simp_all

text \<open>The operations on finite numbers, and the evaluation of the rounding on a literal.\<close>

lemma js_add_Fin: "js_add (Fin a) (Fin b) = to_double (a < 0 \<and> b < 0) (a + b)"
  by (simp add: js_add_def)

lemma js_add_NegZero:
  "js_add (Fin a) NegZero = to_double (a < 0) a" "js_add NegZero (Fin a) = to_double (a < 0) a"
  by (simp_all add: js_add_def)

lemma signed_zero_simps [simp]: "signed_zero False = Fin 0" "signed_zero True = NegZero"
  by (simp_all add: signed_zero_def)

lemma js_mul_Fin: "js_mul (Fin a) (Fin b) = to_double ((a < 0) \<noteq> (b < 0)) (a * b)"
  by (simp add: js_mul_def)

lemma js_div_Fin:
  "b \<noteq> 0 \<Longrightarrow> js_div (Fin a) (Fin b) = to_double ((a < 0) \<noteq> (b < 0)) (a / b)"
  by (simp add: js_div_def)

lemma js_lt_Fin [simp]: "js_lt (Fin a) (Fin b) = (a < b)"
  by (simp add: js_lt_def)

lemma js_le_Fin [simp]: "js_le (Fin a) (Fin b) = (a \<le> b)"
  by (simp add: js_le_def)

lemma js_gt_Fin [simp]: "js_gt (Fin a) (Fin b) = (b < a)"
  by (simp add: js_gt_def)

lemma js_ge_Fin [simp]: "js_ge (Fin a) (Fin b) = (b \<le> a)"
  by (simp add: js_ge_def)

lemma js_truthy_simps [simp]:
  "js_truthy (Fin a) = (a \<noteq> 0)" "\<not> js_truthy NegZero" "\<not> js_truthy NaN"
  "js_truthy PInf" "js_truthy NInf"
  by (simp_all add: js_truthy_def js_zero_def)

lemma same_value_zero_refl [simp]: "same_value_zero x x"
  by (simp add: same_value_zero_def)

lemma same_value_zero_Fin [simp]: "same_value_zero (Fin a) (Fin b) = (a = b)"
  by (auto simp add: same_value_zero_def js_zero_def)

lemma js_includes_simps [simp]:
  "\<not> js_includes [] n" "js_includes (x # xs) n = (same_value_zero x n \<or> js_includes xs n)"
  by (simp_all add: js_includes_def)

lemma js_includes_member: "n \<in> set xs \<Longrightarrow> js_includes xs n"
  by (induction xs) auto


lemma floor_numeral_divide [simp]:
  "\<lfloor>(numeral a :: rat) / numeral b\<rfloor> = numeral a div numeral b"
  "\<lfloor>- (numeral a :: rat) / numeral b\<rfloor> = - numeral a div numeral b"
  using floor_divide_of_int_eq [of "numeral a" "numeral b", where ?'a = rat]
    floor_divide_of_int_eq [of "- numeral a" "numeral b", where ?'a = rat]
  by simp_all

lemmas js_arith = js_add_Fin js_add_NegZero js_mul_Fin js_div_Fin js_sub_def

lemmas double_eval = js_arith to_double_def round_double_def ulp_exp_def floorlog2_def pow2_def
  round_even_def signed_zero_def signed_inf_def js_number_def Let_def bits.simps

lemma ex_service_charge:
  "js_number (3 / 100) = Fin (1080863910568919 / 36028797018963968)"
  "js_mul (Fin 100) (js_number (3 / 100)) = Fin 3"
  by (simp_all add: double_eval)

text \<open>The sum \<open>0.1 + 0.2\<close> is the double above \<open>0.3\<close>, and \<open>2 ^ 53 + 1\<close> is \<open>2 ^ 53\<close>.\<close>

lemma ex_tenths:
  "js_number (3 / 10) = Fin (5404319552844595 / 18014398509481984)"
  "js_add (js_number (1 / 10)) (js_number (2 / 10)) = Fin (1351079888211149 / 4503599627370496)"
  "js_add (Fin (2 ^ 53)) (Fin 1) = Fin (2 ^ 53)"
  by (simp_all add: double_eval)

section \<open>Withdrawal\<close>

text \<open>
  C1. For a registered player and an amount strictly greater than the player's current
  balance, \<open>processWithdrawal\<close> reports the error "Insufficient balance" and returns the
  store as it was: neither the balance, nor the withdrawn total, nor any other field of
  any player changes, so nothing is withdrawn in part.
\<close>

theorem processWithdrawal_insufficient:
  assumes "getPlayer pm playerId = Some p"
    and "js_gt amt (currentBalance p)"
  shows "processWithdrawal pm playerId amt now = (Inl ''Insufficient balance'', pm)"
  using assms by (simp add: processWithdrawal_def getPlayer_def currentBalance_def)

theorem processWithdrawal_insufficient_witness:
  "getPlayer pm1 ''P1'' = Some alice \<and> js_gt (Fin 80) (currentBalance alice)
   \<and> processWithdrawal pm1 ''P1'' (Fin 80) 2000 = (Inl ''Insufficient balance'', pm1)"
proof -
  have a: "getPlayer pm1 ''P1'' = Some alice"
    by (simp add: getPlayer_def pm1_def)
  have b: "js_gt (Fin 80) (currentBalance alice)"
    by (simp add: currentBalance_def or0_def num_or0_def alice_def)
  show ?thesis
    using a b processWithdrawal_insufficient [OF a b, of 2000] by simp
qed

text \<open>
  The handler of the session server rejects the same requests without touching the state;
  it tests the sign of the amount first, so the error is "Insufficient balance" for a
  positive amount.
\<close>

lemma handleWithdraw_insufficient:
  assumes "players sv playerId = Some p" and "js_gt a (or0 (p_balance p))"
  shows "handleWithdraw sv ws playerId (Some a) accountNumber =
     (if js_le a (Fin 0) then Error ''Invalid amount'' else Error ''Insufficient balance'', sv)"
  using assms by (simp add: handleWithdraw_def)

section \<open>Room capacity\<close>

text \<open>
  C10. For a room id that is not in the room store, \<open>isFull\<close> answers true whatever the
  capacity; for a stored room it answers true exactly when the size of the membership is
  at least the capacity (the comparison \<open>>=\<close> of JavaScript).
\<close>

theorem isFull_spec:
  "(getRoom rm roomId = None \<longrightarrow> isFull rm roomId (Some cap))
   \<and> (\<forall>r. getRoom rm roomId = Some r \<longrightarrow>
         isFull rm roomId (Some cap) = js_ge (Fin (of_nat (length (r_players r)))) cap)"
  by (simp add: isFull_def getRoom_def)

theorem isFull_spec_witness:
  "getRoom rm1 ''R2'' = None \<and> isFull rm1 ''R2'' (Some (Fin 90))
   \<and> getRoom rm1 ''R1'' = Some room1
   \<and> isFull rm1 ''R1'' (Some (Fin 2)) \<and> \<not> isFull rm1 ''R1'' (Some (Fin 3))"
proof -
  have a: "getRoom rm1 ''R2'' = None" and b: "getRoom rm1 ''R1'' = Some room1"
    by (simp_all add: getRoom_def rm1_def)
  have len: "length (r_players room1) = 2"
    by (simp add: room1_def)
  from isFull_spec [of rm1 "''R2''" "Fin 90"] a have c: "isFull rm1 ''R2'' (Some (Fin 90))"
    by simp
  from isFull_spec [of rm1 "''R1''" "Fin 2"] b len have d: "isFull rm1 ''R1'' (Some (Fin 2))"
    by simp
  from isFull_spec [of rm1 "''R1''" "Fin 3"] b len have e: "\<not> isFull rm1 ''R1'' (Some (Fin 3))"
    by simp
  from a b c d e show ?thesis by simp
qed

section \<open>Payout\<close>



















section \<open>Ending a game\<close>

text \<open>
  A second \<open>endGame\<close> right after the first is refused by the guard on the active flag and
  changes nothing. That flag is the only guard of the payout: no mark on the room or on a
  winner records that the winners are paid. \<open>resumeGame\<close> succeeds on every stored room
  that is not active, whether its game was paused or has ended.
\<close>

lemma calculateWinnings_active: "r_active (fst (calculateWinnings pm r now)) = r_active r"
  by (simp add: calculateWinnings_def Let_def split: prod.splits)

lemma endGame_again:
  "endGame (snd (endGame s roomId t1)) roomId t2 = (False, snd (endGame s roomId t1))"
proof (cases "roomModel s roomId")
  case None
  then show ?thesis by (simp add: endGame_def)
next
  case (Some r)
  show ?thesis
  proof (cases "r_active r")
    case False
    with Some show ?thesis by (simp add: endGame_def)
  next
    case True
    let ?r0 = "r\<lparr>r_active := False, r_endedAt := Some t1\<rparr>"
    obtain r' pm' where cw: "calculateWinnings (playerModel s) ?r0 t1 = (r', pm')"
      by (cases "calculateWinnings (playerModel s) ?r0 t1")
    from calculateWinnings_active [of "playerModel s" ?r0 t1] cw have "\<not> r_active r'"
      by simp
    with Some True cw show ?thesis
      by (simp add: endGame_def)
  qed
qed

lemma resumeGame_ended:
  "getRoom (roomModel s) roomId = Some r \<Longrightarrow> \<not> r_active r \<Longrightarrow>
   resumeGame s roomId = (True, s\<lparr>roomModel := (roomModel s)(roomId \<mapsto> r\<lparr>r_active := True\<rparr>)\<rparr>)"
  by (simp add: resumeGame_def getRoom_def)

lemma sEnded_eq:
  "sEnded = \<lparr>playerModel = [''P1'' \<mapsto> alice\<lparr>p_wonAmount := Some (Fin 97),
        p_balance := Some (Fin 147), p_lastActive := Some 2000\<rparr>, ''P2'' \<mapsto> bob],
     roomModel = [''R1'' \<mapsto> roomA\<lparr>r_active := False, r_endedAt := Some 2000,
        r_winners := [wAlice\<lparr>w_amount := Fin 97\<rparr>]\<rparr>]\<rparr>"
  by (simp add: sEnded_def endGame_def sA_def calculateWinnings_def Let_def
      roomA_def room1_def memberStakeSum_def winnerStakeSum_def stakeOf_def
      num_or0_def pm1_def alice_def bob_def wAlice_def processWin_def or0_def
      js_add_Fin ex_service_charge(2))
     (simp add: js_arith fun_upd_twist)

lemma sResumed_eq:
  "sResumed = \<lparr>playerModel = [''P1'' \<mapsto> alice\<lparr>p_wonAmount := Some (Fin 97),
        p_balance := Some (Fin 147), p_lastActive := Some 2000\<rparr>, ''P2'' \<mapsto> bob],
     roomModel = [''R1'' \<mapsto> roomA\<lparr>r_active := True, r_endedAt := Some 2000,
        r_winners := [wAlice\<lparr>w_amount := Fin 97\<rparr>]\<rparr>]\<rparr>"
  by (simp add: sResumed_def sEnded_eq resumeGame_def roomA_def room1_def)

lemma sEndedAgain_eq:
  "sEndedAgain = \<lparr>playerModel = [''P1'' \<mapsto> alice\<lparr>p_wonAmount := Some (Fin 194),
        p_balance := Some (Fin 244), p_lastActive := Some 3000\<rparr>, ''P2'' \<mapsto> bob],
     roomModel = [''R1'' \<mapsto> roomA\<lparr>r_active := False, r_endedAt := Some 3000,
        r_winners := [wAlice\<lparr>w_amount := Fin 97\<rparr>]\<rparr>]\<rparr>"
  by (simp add: sEndedAgain_def sResumed_eq endGame_def calculateWinnings_def Let_def
      roomA_def room1_def memberStakeSum_def winnerStakeSum_def stakeOf_def
      num_or0_def pm1_def alice_def bob_def wAlice_def processWin_def or0_def
      js_add_Fin ex_service_charge(2))
     (simp add: js_arith fun_upd_twist)

text \<open>
  C2 fails on the code. The room \<open>R1\<close> is active, its members Alice and Bob have the stake
  50 each, and Alice, whose balance is 50, is its one recorded winner. \<open>endGame\<close> pays her
  97. \<open>resumeGame\<close> then succeeds on the ended room: it tests the active flag alone and
  cannot tell an ended game from a paused one (\<open>pauseGame\<close> only clears the flag, and its
  comment says that the pause state would be tracked separately). The room is active
  again with its winner list kept, so the next \<open>endGame\<close> runs the distribution a second
  time: the recorded amount is 97 as before and Alice's balance goes from 147 to 244.
\<close>

theorem endGame_resume_pays_twice:
  "map_option r_active (getRoom (roomModel sA) ''R1'') = Some True
   \<and> winnerAmounts sA ''R1'' = [Fin 0] \<and> balanceOf sA ''P1'' = Some (Fin 50)
   \<and> fst (endGame sA ''R1'' 2000)
   \<and> winnerAmounts sEnded ''R1'' = [Fin 97] \<and> balanceOf sEnded ''P1'' = Some (Fin 147)
   \<and> fst (resumeGame sEnded ''R1'')
   \<and> fst (endGame sResumed ''R1'' 3000)
   \<and> winnerAmounts sEndedAgain ''R1'' = [Fin 97] \<and> balanceOf sEndedAgain ''P1'' = Some (Fin 244)"
proof -
  have a: "map_option r_active (getRoom (roomModel sA) ''R1'') = Some True"
    "winnerAmounts sA ''R1'' = [Fin 0]" "balanceOf sA ''P1'' = Some (Fin 50)"
    by (simp_all add: getRoom_def winnerAmounts_def balanceOf_def sA_def roomA_def room1_def
        wAlice_def pm1_def alice_def)
  have b: "fst (endGame sA ''R1'' 2000)"
    by (simp add: endGame_def sA_def roomA_def room1_def split: prod.splits)
  have c: "winnerAmounts sEnded ''R1'' = [Fin 97]" "balanceOf sEnded ''P1'' = Some (Fin 147)"
    by (simp_all add: sEnded_eq winnerAmounts_def balanceOf_def)
  have d: "fst (resumeGame sEnded ''R1'')"
    by (simp add: sEnded_eq resumeGame_def)
  have e: "fst (endGame sResumed ''R1'' 3000)"
    by (simp add: sResumed_eq endGame_def split: prod.splits)
  have f: "winnerAmounts sEndedAgain ''R1'' = [Fin 97]"
    "balanceOf sEndedAgain ''P1'' = Some (Fin 244)"
    by (simp_all add: sEndedAgain_eq winnerAmounts_def balanceOf_def)
  from a b c d e f show ?thesis by simp
qed

section \<open>Calling numbers\<close>

lemma calledDistinct_rooms_eq: "rooms sv' = rooms sv \<Longrightarrow> calledDistinct sv' = calledDistinct sv"
  by (simp add: calledDistinct_def)

lemma calledDistinct_hello: "calledDistinct sv \<Longrightarrow> calledDistinct (snd (handleHello sv ws playerId isAdmin tokenValid))"
  by (rule calledDistinct_rooms_eq [THEN iffD2]) (simp_all add: handleHello_def split: option.splits)

lemma calledDistinct_register:
  "calledDistinct sv \<Longrightarrow> calledDistinct (snd (handleRegister sv ws playerId nm ph stake gameType pay now))"
  by (rule calledDistinct_rooms_eq [THEN iffD2]) (simp_all add: handleRegister_def Let_def)

lemma calledDistinct_mark:
  "calledDistinct sv \<Longrightarrow> calledDistinct (snd (handleMark sv ws playerId number marked))"
  by (rule calledDistinct_rooms_eq [THEN iffD2]) (simp_all add: handleMark_def Let_def split: option.splits)

lemma calledDistinct_payment:
  "calledDistinct sv \<Longrightarrow> calledDistinct (snd (handlePayment sv ws playerId amount))"
  by (rule calledDistinct_rooms_eq [THEN iffD2]) (simp_all add: handlePayment_def Let_def split: option.splits)

lemma calledDistinct_withdraw:
  "calledDistinct sv \<Longrightarrow> calledDistinct (snd (handleWithdraw sv ws playerId amount accountNumber))"
  by (rule calledDistinct_rooms_eq [THEN iffD2]) (simp_all add: handleWithdraw_def Let_def split: option.splits)

lemma calledDistinct_join:
  "calledDistinct sv \<Longrightarrow> calledDistinct (snd (handleJoinRoom sv ws playerId roomId now))"
  by (auto simp add: calledDistinct_def handleJoinRoom_def Let_def newRoom_def split: option.splits if_splits)

lemma calledDistinct_removeMember:
  "calledDistinct sv \<Longrightarrow> calledDistinct (removeMember sv playerId roomId)"
  by (auto simp add: calledDistinct_def removeMember_def Let_def split: option.splits if_splits)

lemma calledDistinct_refundStake:
  "calledDistinct sv \<Longrightarrow> calledDistinct (refundStake sv playerId roomId)"
  by (auto simp add: calledDistinct_def refundStake_def split: option.splits if_splits)

lemma calledDistinct_leave:
  "calledDistinct sv \<Longrightarrow> calledDistinct (snd (handleLeaveRoom sv ws playerId roomId))"
  by (simp add: handleLeaveRoom_def calledDistinct_removeMember calledDistinct_refundStake)

lemma calledDistinct_start:
  "calledDistinct sv \<Longrightarrow> calledDistinct (snd (handleStartGame sv ws roomId gameType stake))"
  by (auto simp add: calledDistinct_def handleStartGame_def Let_def split: option.splits if_splits)

lemma calledDistinct_number:
  "calledDistinct sv \<Longrightarrow> calledDistinct (snd (handleNumberCalled sv ws roomId number))"
  by (auto simp add: calledDistinct_def handleNumberCalled_def js_includes_member
      split: option.splits if_splits)

lemma calledDistinct_win:
  "calledDistinct sv \<Longrightarrow> calledDistinct (snd (handleWin sv ws playerId pattern amount now))"
  by (auto simp add: calledDistinct_def handleWin_def Let_def split: option.splits if_splits)

lemma calledDistinct_disconnect:
  "calledDistinct sv \<Longrightarrow> calledDistinct (handlePlayerDisconnect sv playerId)"
  by (auto simp add: calledDistinct_def handlePlayerDisconnect_def Let_def split: option.splits if_splits)

lemma calledDistinct_close:
  "calledDistinct sv \<Longrightarrow> calledDistinct (handleWebSocketClose sv ws)"
  by (simp add: handleWebSocketClose_def calledDistinct_disconnect) (simp add: calledDistinct_def)

lemma calledDistinct_endGame:
  "calledDistinct sv \<Longrightarrow> calledDistinct (snd (handleEndGame sv ws data))"
  by (auto simp add: calledDistinct_def handleEndGame_def split: option.splits if_splits)

lemma calledDistinct_resetRoom:
  "calledDistinct sv \<Longrightarrow> calledDistinct (snd (handleResetRoom sv ws data))"
  by (auto simp add: calledDistinct_def handleResetRoom_def split: option.splits if_splits)

lemma calledDistinct_kick:
  "calledDistinct sv \<Longrightarrow> calledDistinct (snd (handleKickPlayer sv ws data))"
  by (simp add: handleKickPlayer_def calledDistinct_disconnect split: option.splits)

lemma calledDistinct_adminCommand:
  "calledDistinct sv \<Longrightarrow> calledDistinct (snd (handleAdminCommand sv ws command data))"
  by (simp add: handleAdminCommand_def handleAdminBroadcast_def handleGetPlayers_def
      calledDistinct_kick calledDistinct_endGame calledDistinct_resetRoom split: option.splits)

lemma reachable_calledDistinct: "reachable sv \<Longrightarrow> calledDistinct sv"
proof (induction rule: reachable.induct)
  case init
  then show ?case by (simp add: calledDistinct_def initialServer_def)
qed (simp_all add: calledDistinct_hello calledDistinct_register calledDistinct_join
      calledDistinct_leave calledDistinct_start calledDistinct_number calledDistinct_mark
      calledDistinct_win calledDistinct_payment calledDistinct_withdraw
      calledDistinct_adminCommand calledDistinct_close calledDistinct_disconnect)

lemma reachable_run6: "reachable run6"
  unfolding run6_def run5_def run4_def run3_def run2_def run1_def run0_def
  by (intro reachable.intros)

lemma run1_eq: "run1 = \<lparr>rooms = Map.empty,
    players = [''P1'' \<mapsto> alice\<lparr>p_roomId := None, p_lastActive := None\<rparr>], adminConnections = [9]\<rparr>"
  by (simp add: run1_def run0_def handleHello_def adminWs_def set_add_def handleRegister_def
      initialServer_def str_truthy_def num_of_def or0_def
      num_or0_def aliceWs_def alice_def Let_def)

lemma run2_eq: "run2 = \<lparr>rooms = Map.empty,
    players = [''P1'' \<mapsto> alice\<lparr>p_roomId := None, p_lastActive := None\<rparr>,
               ''P2'' \<mapsto> bob\<lparr>p_roomId := None, p_balance := Some (Fin 50), p_lastActive := None\<rparr>],
    adminConnections = [9]\<rparr>"
  by (simp add: run2_def run1_eq handleRegister_def str_truthy_def num_of_def or0_def
      num_or0_def bobWs_def bob_def Let_def)

lemma run4_eq: "run4 = \<lparr>rooms = [''R1'' \<mapsto> (newRoom ''R1'' ''75ball'' (Fin 50) 1100)\<lparr>r_players := [''P1'', ''P2'']\<rparr>],
    players = [''P1'' \<mapsto> aliceJoined, ''P2'' \<mapsto> bobJoined], adminConnections = [9]\<rparr>"
  by (simp add: run4_def run3_def run2_eq handleJoinRoom_def num_of_def js_arith js_neq_def
      set_add_def aliceWs_def bobWs_def alice_def bob_def newRoom_def Let_def aliceJoined_def bobJoined_def)

lemma run6_eq: "run6 = \<lparr>rooms = [''R1'' \<mapsto> roomStarted\<lparr>r_calledNumbers := [Fin 17]\<rparr>],
    players = [''P1'' \<mapsto> aliceJoined, ''P2'' \<mapsto> bobJoined], adminConnections = [9]\<rparr>"
  by (simp add: run6_def run5_def run4_eq handleStartGame_def handleNumberCalled_def adminWs_def
      newRoom_def roomStarted_def str_truthy_def num_of_def maxNumber_def js_gt_def Let_def)

text \<open>
  C3, as stated, fails for \<open>RoomModel.callNumber\<close>: on an active room it appends whatever
  number it is given, a number already called or one outside 1..75 included.
\<close>

theorem callNumber_accepts_duplicate:
  "map_option r_calledNumbers (roomModel sA ''R1'') = Some [Fin 17]
   \<and> fst (callNumber sA ''R1'' (Fin 17))
   \<and> map_option r_calledNumbers (roomModel (snd (callNumber sA ''R1'' (Fin 17))) ''R1'')
       = Some [Fin 17, Fin 17]
   \<and> map_option r_calledNumbers (roomModel (snd (callNumber sA ''R1'' (Fin 500))) ''R1'')
       = Some [Fin 17, Fin 500]"
  by (simp add: callNumber_def sA_def roomA_def room1_def)

text \<open>
  C3, amended. The validation is in the handler of the session server: for an active room,
  \<open>handleNumberCalled\<close> answers a request whose number is missing, already called, below 1
  or above the maximum of the room's variant with an error and leaves the whole server
  state unchanged; consequently, in every state the server reaches, the called numbers of
  every room are free of duplicates. (\<open>RoomModel.callNumber\<close> itself checks only that the
  room exists and is active.)
\<close>

theorem handleNumberCalled_validates:
  "(rooms sv roomId = Some room \<and> r_active room
      \<and> (case number of
            None \<Rightarrow> True
          | Some n \<Rightarrow> n \<in> set (r_calledNumbers room) \<or> js_lt n (Fin 1)
                       \<or> js_gt n (maxNumber (r_gameType room)))
      \<longrightarrow> (\<exists>text. handleNumberCalled sv ws roomId number = (Error text, sv)))
   \<and> (reachable sv' \<and> rooms sv' roomId' = Some room' \<longrightarrow> distinct (r_calledNumbers room'))"
proof -
  have "distinct (r_calledNumbers room')" if "reachable sv'" and "rooms sv' roomId' = Some room'"
    using reachable_calledDistinct [OF that(1)] that(2) by (simp add: calledDistinct_def)
  then show ?thesis
    by (auto simp add: handleNumberCalled_def js_includes_member split: option.splits)
qed

theorem handleNumberCalled_validates_witness:
  "rooms run6 ''R1'' = Some (roomStarted\<lparr>r_calledNumbers := [Fin 17]\<rparr>)
   \<and> r_active (roomStarted\<lparr>r_calledNumbers := [Fin 17]\<rparr>)
   \<and> Fin 17 \<in> set (r_calledNumbers (roomStarted\<lparr>r_calledNumbers := [Fin 17]\<rparr>))
   \<and> (\<exists>text. handleNumberCalled run6 adminWs ''R1'' (Some (Fin 17)) = (Error text, run6))
   \<and> reachable run6
   \<and> distinct (r_calledNumbers (roomStarted\<lparr>r_calledNumbers := [Fin 17]\<rparr>))"
proof -
  let ?r = "roomStarted\<lparr>r_calledNumbers := [Fin 17]\<rparr>"
  have a: "rooms run6 ''R1'' = Some ?r"
    by (simp add: run6_eq)
  have b: "r_active ?r"
    by (simp add: roomStarted_def)
  from handleNumberCalled_validates [of run6 "''R1''" ?r "Some (Fin 17)" adminWs run6 "''R1''" ?r]
    a b reachable_run6
  show ?thesis by simp
qed

section \<open>Leaving a room\<close>

lemma remove_lookup: "roomModel (snd (remove s roomId)) roomId = None"
  by (simp add: remove_def Let_def)

lemma removePlayer_no_empty_room:
  "getRoom (roomModel (snd (removePlayer s roomId playerId))) roomId = Some r' \<Longrightarrow> r_players r' \<noteq> []"
  by (auto simp add: removePlayer_def getRoom_def Let_def remove_lookup split: option.splits if_splits)

lemma removePlayer_last:
  assumes "getRoom (roomModel s) roomId = Some r" and "removeAll playerId (r_players r) = []"
  shows "getRoom (roomModel (snd (removePlayer s roomId playerId))) roomId = None"
  using assms by (simp add: removePlayer_def getRoom_def Let_def remove_lookup)

lemma set_delete_last: "set xs = {x} \<Longrightarrow> set_delete x xs = []"
  by (auto simp add: set_delete_def filter_empty_conv removeAll_filter_not_eq)


lemma removeMember_room:
  "players sv playerId = Some p \<Longrightarrow> rooms sv roomId = Some r \<Longrightarrow>
   rooms (removeMember sv playerId roomId) roomId =
     (if set_delete playerId (r_players r) = [] then None
      else Some (r\<lparr>r_players := set_delete playerId (r_players r)\<rparr>))"
  by (simp add: removeMember_def Let_def)

lemma refundStake_rooms: "rooms (refundStake sv playerId roomId) = rooms sv"
  by (simp add: refundStake_def split: option.splits)

lemma refundStake_player:
  "players sv playerId = Some p \<Longrightarrow> rooms sv roomId = Some r \<Longrightarrow>
   players (refundStake sv playerId roomId) playerId =
     Some (if r_active r then p
           else p\<lparr>p_balance := Some (js_add (num_of (p_balance p)) (p_stake p))\<rparr>)"
  by (simp add: refundStake_def)

lemma run3_eq: "run3 = \<lparr>rooms = [''R1'' \<mapsto> (newRoom ''R1'' ''75ball'' (Fin 50) 1100)\<lparr>r_players := [''P1'']\<rparr>],
    players = [''P2'' \<mapsto> bob\<lparr>p_roomId := None, p_balance := Some (Fin 50), p_lastActive := None\<rparr>,
               ''P1'' \<mapsto> aliceJoined],
    adminConnections = [9]\<rparr>"
  by (simp add: run3_def run2_eq handleJoinRoom_def num_of_def js_arith js_neq_def
      set_add_def aliceWs_def alice_def newRoom_def Let_def aliceJoined_def)

lemma removeAll_last: "set xs = {x} \<Longrightarrow> removeAll x xs = []"
  by (auto simp add: filter_empty_conv removeAll_filter_not_eq)

text \<open>
  C5. When the departure of a room's only member empties the membership, the room is
  deleted in the same operation and a lookup by its id finds no room: so for
  \<open>RoomModel.removePlayer\<close> and for \<open>handleLeaveRoom\<close> in both server variants. After a
  departure no room with an empty membership is left under that id.
\<close>

theorem last_member_destroys_room:
  "(getRoom (roomModel s) roomId = Some r \<and> set (r_players r) = {playerId} \<longrightarrow>
      getRoom (roomModel (snd (removePlayer s roomId playerId))) roomId = None)
   \<and> (\<forall>r'. getRoom (roomModel (snd (removePlayer s roomId playerId))) roomId = Some r'
          \<longrightarrow> r_players r' \<noteq> [])
   \<and> (players sv playerId = Some p \<and> rooms sv roomId = Some r \<and> set (r_players r) = {playerId} \<longrightarrow>
        rooms (snd (handleLeaveRoom_part001 sv ws playerId roomId)) roomId = None
        \<and> rooms (snd (handleLeaveRoom sv ws playerId roomId)) roomId = None)
   \<and> (\<forall>r'. players sv playerId \<noteq> None \<and> rooms sv roomId \<noteq> None
          \<and> (rooms (snd (handleLeaveRoom_part001 sv ws playerId roomId)) roomId = Some r'
              \<or> rooms (snd (handleLeaveRoom sv ws playerId roomId)) roomId = Some r')
          \<longrightarrow> r_players r' \<noteq> [])"
proof -
  have a: "getRoom (roomModel (snd (removePlayer s roomId playerId))) roomId = None"
    if "getRoom (roomModel s) roomId = Some r" and "set (r_players r) = {playerId}"
    using that by (simp add: removePlayer_last removeAll_last)
  have b: "r_players r' \<noteq> []"
    if "getRoom (roomModel (snd (removePlayer s roomId playerId))) roomId = Some r'" for r'
    using that by (rule removePlayer_no_empty_room)
  have c: "rooms (snd (handleLeaveRoom_part001 sv ws playerId roomId)) roomId = None
        \<and> rooms (snd (handleLeaveRoom sv ws playerId roomId)) roomId = None"
    if p: "players sv playerId = Some p" and r: "rooms sv roomId = Some r"
      and l: "set (r_players r) = {playerId}"
  proof -
    obtain p1 where p1: "players (refundStake sv playerId roomId) playerId = Some p1"
      using refundStake_player [OF p r] by simp
    have r1: "rooms (refundStake sv playerId roomId) roomId = Some r"
      using r by (simp add: refundStake_rooms)
    from p r l show ?thesis
      by (simp add: handleLeaveRoom_part001_def handleLeaveRoom_def removeMember_room [OF p r]
          removeMember_room [OF p1 r1] set_delete_last)
  qed
  have d: "r_players r' \<noteq> []"
    if pr: "players sv playerId \<noteq> None" "rooms sv roomId \<noteq> None"
      and h: "rooms (snd (handleLeaveRoom_part001 sv ws playerId roomId)) roomId = Some r'
              \<or> rooms (snd (handleLeaveRoom sv ws playerId roomId)) roomId = Some r'" for r'
  proof -
    from pr obtain p0 r0 where p: "players sv playerId = Some p0" and r: "rooms sv roomId = Some r0"
      by auto
    obtain p1 where p1: "players (refundStake sv playerId roomId) playerId = Some p1"
      using refundStake_player [OF p r] by simp
    have r1: "rooms (refundStake sv playerId roomId) roomId = Some r0"
      using r by (simp add: refundStake_rooms)
    from h p r show ?thesis
      by (auto simp add: handleLeaveRoom_part001_def handleLeaveRoom_def removeMember_room [OF p r]
          removeMember_room [OF p1 r1] split: if_splits)
  qed
  from a b c d show ?thesis by blast
qed

theorem last_member_destroys_room_witness:
  "getRoom (roomModel sSolo) ''R1'' = Some (room1\<lparr>r_players := [''P1'']\<rparr>)
   \<and> set (r_players (room1\<lparr>r_players := [''P1'']\<rparr>)) = {''P1''}
   \<and> getRoom (roomModel (snd (removePlayer sSolo ''R1'' ''P1''))) ''R1'' = None
   \<and> players run3 ''P1'' = Some aliceJoined
   \<and> map_option r_players (rooms run3 ''R1'') = Some [''P1'']
   \<and> rooms (snd (handleLeaveRoom_part001 run3 aliceWs ''P1'' ''R1'')) ''R1'' = None
   \<and> rooms (snd (handleLeaveRoom run3 aliceWs ''P1'' ''R1'')) ''R1'' = None"
proof -
  let ?r = "room1\<lparr>r_players := [''P1'']\<rparr>"
  let ?r3 = "(newRoom ''R1'' ''75ball'' (Fin 50) 1100)\<lparr>r_players := [''P1'']\<rparr>"
  have a: "getRoom (roomModel sSolo) ''R1'' = Some ?r" and b: "set (r_players ?r) = {''P1''}"
    by (simp_all add: getRoom_def sSolo_def)
  have c: "players run3 ''P1'' = Some aliceJoined" and d: "rooms run3 ''R1'' = Some ?r3"
    and e: "set (r_players ?r3) = {''P1''}"
    by (simp_all add: run3_eq)
  have f: "getRoom (roomModel (snd (removePlayer sSolo ''R1'' ''P1''))) ''R1'' = None"
    using last_member_destroys_room [of sSolo "''R1''" ?r "''P1''"] a b by blast
  have g: "rooms (snd (handleLeaveRoom_part001 run3 aliceWs ''P1'' ''R1'')) ''R1'' = None
        \<and> rooms (snd (handleLeaveRoom run3 aliceWs ''P1'' ''R1'')) ''R1'' = None"
    using last_member_destroys_room [of _ "''R1''" ?r3 "''P1''" run3 aliceJoined aliceWs] c d e
    by blast
  from a b c d f g show ?thesis by simp
qed




section \<open>Closing an admin endpoint\<close>

text \<open>
  C9, as stated, fails: closing the bound admin endpoint does not clear the room's admin
  binding. \<open>handleWebSocketClose\<close> removes the endpoint from \<open>adminConnections\<close> and
  returns; the room keeps referring to the closed endpoint.
\<close>

theorem admin_close_keeps_binding:
  "ws_isAdmin adminWs
   \<and> map_option r_admin (rooms run6 ''R1'') = Some (Some (ws_sock adminWs))
   \<and> map_option r_admin (rooms (handleWebSocketClose run6 adminWs) ''R1'')
       = Some (Some (ws_sock adminWs))
   \<and> map_option r_admin (rooms (handleWebSocketClose_part001 run6 adminWs) ''R1'')
       = Some (Some (ws_sock adminWs))"
  by (simp add: adminWs_def handleWebSocketClose_def handleWebSocketClose_part001_def run6_eq
      roomStarted_def)

text \<open>
  C9, amended. Closing an admin endpoint changes no room at all: no room is destroyed, and
  membership, called numbers, winners, the active flag and also the admin binding of every
  room stay as they are; the players stay as they are; the only effect is that the
  endpoint leaves \<open>adminConnections\<close>. Both server variants agree.
\<close>

theorem admin_close_frame:
  "ws_isAdmin ws \<longrightarrow>
     rooms (handleWebSocketClose sv ws) = rooms sv
     \<and> players (handleWebSocketClose sv ws) = players sv
     \<and> adminConnections (handleWebSocketClose sv ws) = set_delete (ws_sock ws) (adminConnections sv)
     \<and> handleWebSocketClose_part001 sv ws = handleWebSocketClose sv ws"
  by (simp add: handleWebSocketClose_def handleWebSocketClose_part001_def)

theorem admin_close_frame_witness:
  "ws_isAdmin adminWs
   \<and> rooms (handleWebSocketClose run6 adminWs) = rooms run6
   \<and> players (handleWebSocketClose run6 adminWs) = players run6
   \<and> adminConnections run6 = [9]
   \<and> adminConnections (handleWebSocketClose run6 adminWs) = []"
proof -
  have a: "ws_isAdmin adminWs" and b: "ws_sock adminWs = 9"
    by (simp_all add: adminWs_def)
  have c: "adminConnections run6 = [9]"
    by (simp add: run6_eq)
  from admin_close_frame [of adminWs run6] a b c show ?thesis
    by (simp add: set_delete_def)
qed

section \<open>Room broadcast\<close>

lemma roomSend_foldl:
  "foldl (roomSend net pm msg) acc ids =
     (fst acc + length (filter (delivers net) (List.map_filter
          (\<lambda>playerId. case pm playerId of None \<Rightarrow> None | Some p \<Rightarrow> p_socket p) ids)),
      snd acc @ map (\<lambda>sk. (sk, msg)) (filter (delivers net) (List.map_filter
          (\<lambda>playerId. case pm playerId of None \<Rightarrow> None | Some p \<Rightarrow> p_socket p) ids)))"
proof (induction ids arbitrary: acc)
  case Nil
  then show ?case by (simp add: map_filter_simps)
next
  case (Cons i ids)
  show ?case
    by (simp add: Cons.IH)
       (simp add: roomSend_def map_filter_simps delivers_def split: option.splits)
qed

text \<open>
  C7, as stated, fails for \<open>broadcastToRoom\<close> of services/broadcaster.ts: it sends to the
  members only. Here the room has the bound admin endpoint 9, open and with a working
  send, and the two deliveries go to the members' endpoints 1 and 2.
\<close>

theorem broadcastToRoom_members_only:
  "map_option r_admin (roomModel sA ''R1'') = Some (Some 9) \<and> delivers netUp 9
   \<and> broadcastToRoom netUp sA ''R1'' (Msg ''game_started'')
       = (2, [(1, Msg ''game_started''), (2, Msg ''game_started'')])"
  by (simp add: broadcastToRoom_def sA_def roomA_def room1_def pm1_def alice_def bob_def
      roomSend_def netUp_def delivers_def)

text \<open>
  C7, amended. \<open>broadcastToRoom\<close> of the session server delivers the message to exactly
  the endpoints of its audience that take it: the endpoint of every registered member and
  then the bound admin endpoint when there is one, each of them if it is open and its send
  succeeds. \<open>broadcastToRoom\<close> of services/broadcaster.ts does the same for the members'
  endpoints alone and returns their number. In both, what one endpoint does (closed, or its
  send throws) decides only its own delivery: the others are delivered as if it were not
  there.
\<close>

theorem broadcastToRoom_fanout:
  "(rooms sv roomId = Some room \<longrightarrow>
      broadcastToRoom_server net sv roomId msg =
        map (\<lambda>sk. (sk, msg))
          (filter (delivers net) (memberEndpoints (players sv) room @ adminEndpoint room)))
   \<and> (roomModel s roomId = Some room' \<longrightarrow>
      snd (broadcastToRoom net s roomId msg) =
        map (\<lambda>sk. (sk, msg)) (filter (delivers net) (memberEndpoints (playerModel s) room'))
      \<and> fst (broadcastToRoom net s roomId msg) =
        length (filter (delivers net) (memberEndpoints (playerModel s) room')))"
  by (simp add: broadcastToRoom_server_def broadcastToRoom_def roomSend_foldl memberEndpoints_def
      adminEndpoint_def delivers_def Let_def split: option.splits)

theorem broadcastToRoom_fanout_witness:
  "rooms run6 ''R1'' = Some (roomStarted\<lparr>r_calledNumbers := [Fin 17]\<rparr>)
   \<and> memberEndpoints (players run6) (roomStarted\<lparr>r_calledNumbers := [Fin 17]\<rparr>) = [1, 2]
   \<and> adminEndpoint (roomStarted\<lparr>r_calledNumbers := [Fin 17]\<rparr>) = [9]
   \<and> sendThrows (netFlaky 1)
   \<and> broadcastToRoom_server netFlaky run6 ''R1'' (Msg ''number_called'')
       = [(2, Msg ''number_called''), (9, Msg ''number_called'')]
   \<and> roomModel sA ''R1'' = Some roomA
   \<and> snd (broadcastToRoom netFlaky sA ''R1'' (Msg ''number_called'')) = [(2, Msg ''number_called'')]"
proof -
  let ?r = "roomStarted\<lparr>r_calledNumbers := [Fin 17]\<rparr>"
  have a: "rooms run6 ''R1'' = Some ?r"
    by (simp add: run6_eq)
  have b: "memberEndpoints (players run6) ?r = [1, 2]"
    by (simp add: memberEndpoints_def run6_eq roomStarted_def newRoom_def map_filter_simps
        aliceJoined_def bobJoined_def alice_def bob_def)
  have c: "adminEndpoint ?r = [9]"
    by (simp add: adminEndpoint_def roomStarted_def)
  have d: "sendThrows (netFlaky 1)" "filter (delivers netFlaky) [1, 2, 9] = [2, 9]"
    "filter (delivers netFlaky) [1, 2] = [2]"
    by (simp_all add: netFlaky_def delivers_def)
  have e: "roomModel sA ''R1'' = Some roomA"
    by (simp add: sA_def)
  have f: "memberEndpoints (playerModel sA) roomA = [1, 2]"
    by (simp add: memberEndpoints_def sA_def roomA_def room1_def pm1_def map_filter_simps
        alice_def bob_def)
  have g: "broadcastToRoom_server netFlaky run6 ''R1'' (Msg ''number_called'')
       = [(2, Msg ''number_called''), (9, Msg ''number_called'')]"
    using broadcastToRoom_fanout [of run6 "''R1''" ?r netFlaky "Msg ''number_called''"] a b c d
    by simp
  have h: "snd (broadcastToRoom netFlaky sA ''R1'' (Msg ''number_called'')) = [(2, Msg ''number_called'')]"
    using broadcastToRoom_fanout [of _ "''R1''" _ netFlaky "Msg ''number_called''" sA roomA] e f d
    by simp
  from a b c d e g h show ?thesis by simp
qed

section \<open>Rate-limited broadcast\<close>

lemma rl_inv_fresh: "rl_fresh rt \<Longrightarrow> rl_inv rt"
  by (auto simp add: rl_fresh_def rl_inv_def timeoutOf_def split: option.splits)

lemma rl_steady_fresh: "rl_fresh rt \<Longrightarrow> rl_steady rt"
  by (auto simp add: rl_fresh_def rl_steady_def queueOf_def timeoutOf_def split: option.splits)

lemma rl_call_timers:
  "rt_timers (snd (rateLimitedBroadcast rt roomId msg minInterval now)) =
     (if rl_schedules rt roomId minInterval now
      then rt_timers rt @ [(Suc (rt_nextHandle rt), roomId)] else rt_timers rt)"
  by (simp add: rateLimitedBroadcast_def rl_schedules_def rl_within_def timeoutOf_def putRoom_def
      callBroadcastToRoom_def Let_def split: option.splits)

lemma rl_call_nextHandle:
  "rt_nextHandle (snd (rateLimitedBroadcast rt roomId msg minInterval now)) =
     (if rl_schedules rt roomId minInterval now
      then Suc (rt_nextHandle rt) else rt_nextHandle rt)"
  by (simp add: rateLimitedBroadcast_def rl_schedules_def rl_within_def timeoutOf_def putRoom_def
      callBroadcastToRoom_def Let_def split: option.splits)

lemma rl_call_timeoutOf:
  "timeoutOf (snd (rateLimitedBroadcast rt roomId msg minInterval now)) rid =
     (if rl_schedules rt roomId minInterval now
      then (if rid = roomId then Some (Suc (rt_nextHandle rt)) else timeoutOf rt rid)
      else timeoutOf rt rid)"
  by (simp add: rateLimitedBroadcast_def rl_schedules_def rl_within_def timeoutOf_def putRoom_def
      callBroadcastToRoom_def Let_def split: option.splits)

lemma rl_call_queueOf:
  "queueOf (snd (rateLimitedBroadcast rt roomId msg minInterval now)) rid =
     (if rid = roomId \<and> rl_within rt roomId minInterval now
      then queueOf rt roomId @ [msg] else queueOf rt rid)"
  by (simp add: rateLimitedBroadcast_def rl_within_def queueOf_def putRoom_def
      callBroadcastToRoom_def Let_def split: option.splits)

lemma rl_call_broadcasts:
  "rt_broadcasts (snd (rateLimitedBroadcast rt roomId msg minInterval now)) =
     (if roomModel (rt_stores rt) roomId \<noteq> None \<and> \<not> rl_within rt roomId minInterval now
      then rt_broadcasts rt @ [(roomId, msg)] else rt_broadcasts rt)"
  by (simp add: rateLimitedBroadcast_def rl_within_def putRoom_def
      callBroadcastToRoom_def Let_def split: option.splits)

lemma rl_call_stored:
  "(roomModel (rt_stores (snd (rateLimitedBroadcast rt roomId msg minInterval now))) rid = None)
     = (roomModel (rt_stores rt) rid = None)"
  by (simp add: rateLimitedBroadcast_def putRoom_def callBroadcastToRoom_def Let_def
      split: option.splits)

lemma rl_within_stored: "rl_within rt roomId minInterval now \<Longrightarrow> roomModel (rt_stores rt) roomId \<noteq> None"
  by (auto simp add: rl_within_def split: option.splits)

lemma rl_inv_distinct: "rl_inv rt \<Longrightarrow> distinct (map fst (rt_timers rt))"
  by (simp add: rl_inv_def)

lemma rl_inv_pending:
  "rl_inv rt \<Longrightarrow> (h, rid) \<in> set (rt_timers rt) \<Longrightarrow> 0 < h \<and> h \<le> rt_nextHandle rt"
  by (force simp add: rl_inv_def)

lemma rl_inv_pending_room:
  "rl_inv rt \<Longrightarrow> (h, rid) \<in> set (rt_timers rt) \<Longrightarrow> roomModel (rt_stores rt) rid \<noteq> None \<Longrightarrow>
   timeoutOf rt rid = Some h"
  by (force simp add: rl_inv_def)

lemma rl_inv_set:
  assumes "rl_inv rt" and "timeoutOf rt rid = Some h"
  shows "(h, rid) \<in> set (rt_timers rt)"
proof -
  from assms(1) have "\<forall>roomId h. timeoutOf rt roomId = Some h \<longrightarrow> (h, roomId) \<in> set (rt_timers rt)"
    by (simp add: rl_inv_def)
  with assms(2) show ?thesis by blast
qed

lemma rl_inv_unique:
  assumes "rl_inv rt" and "(h, rid) \<in> set (rt_timers rt)" and "(h', rid) \<in> set (rt_timers rt)"
  shows "h = h'"
proof -
  from assms(1)
  have "\<forall>t \<in> set (rt_timers rt). \<forall>t' \<in> set (rt_timers rt). snd t = snd t' \<longrightarrow> t = t'"
    by (simp add: rl_inv_def)
  with assms(2,3) have "(h, rid) = (h', rid)" by fastforce
  then show ?thesis by simp
qed

lemma rl_inv_same_handle:
  assumes "rl_inv rt" and "(h, rid) \<in> set (rt_timers rt)" and "(h, rid') \<in> set (rt_timers rt)"
  shows "rid = rid'"
  using rl_inv_distinct [OF assms(1)] assms(2,3) by (auto dest: eq_key_imp_eq_value)

lemma rl_invI:
  assumes "distinct (map fst (rt_timers rt))"
    and "\<And>h rid. (h, rid) \<in> set (rt_timers rt) \<Longrightarrow> 0 < h \<and> h \<le> rt_nextHandle rt"
    and "\<And>h rid. (h, rid) \<in> set (rt_timers rt) \<Longrightarrow> roomModel (rt_stores rt) rid \<noteq> None \<Longrightarrow>
           timeoutOf rt rid = Some h"
    and "\<And>rid h. timeoutOf rt rid = Some h \<Longrightarrow> (h, rid) \<in> set (rt_timers rt)"
    and "\<And>h h' rid. (h, rid) \<in> set (rt_timers rt) \<Longrightarrow> (h', rid) \<in> set (rt_timers rt) \<Longrightarrow> h = h'"
  shows "rl_inv rt"
  unfolding rl_inv_def
proof (intro conjI ballI allI impI)
  show "distinct (map fst (rt_timers rt))" by fact
next
  fix t
  assume "t \<in> set (rt_timers rt)"
  then have "(fst t, snd t) \<in> set (rt_timers rt)" by simp
  from assms(2) [OF this] show "0 < fst t" "fst t \<le> rt_nextHandle rt" by simp_all
next
  fix t
  assume "t \<in> set (rt_timers rt)" and "roomModel (rt_stores rt) (snd t) \<noteq> None"
  then have "(fst t, snd t) \<in> set (rt_timers rt)" "roomModel (rt_stores rt) (snd t) \<noteq> None"
    by simp_all
  then show "timeoutOf rt (snd t) = Some (fst t)" by (rule assms(3))
next
  fix roomId h
  assume "timeoutOf rt roomId = Some h"
  then show "(h, roomId) \<in> set (rt_timers rt)" by (rule assms(4))
next
  fix t t'
  assume t: "t \<in> set (rt_timers rt)" and t': "t' \<in> set (rt_timers rt)" and eq: "snd t = snd t'"
  from t have "(fst t, snd t) \<in> set (rt_timers rt)" by simp
  moreover from t' eq have "(fst t', snd t) \<in> set (rt_timers rt)" by simp
  ultimately have "fst t = fst t'" by (rule assms(5))
  with eq show "t = t'" by (simp add: prod_eq_iff)
qed

lemma rl_inv_call:
  assumes inv: "rl_inv rt"
  shows "rl_inv (snd (rateLimitedBroadcast rt roomId msg minInterval now))"
proof (cases "rl_schedules rt roomId minInterval now")
  case True
  then have wi: "rl_within rt roomId minInterval now" and un: "timer_unset (timeoutOf rt roomId)"
    by (simp_all add: rl_schedules_def)
  let ?h = "Suc (rt_nextHandle rt)"
  let ?rt' = "snd (rateLimitedBroadcast rt roomId msg minInterval now)"
  have stored: "roomModel (rt_stores rt) roomId \<noteq> None"
    using wi by (rule rl_within_stored)
  have fresh: "?h \<notin> fst ` set (rt_timers rt)"
    using rl_inv_pending [OF inv] by force
  have unset: "timeoutOf rt roomId = None"
  proof (cases "timeoutOf rt roomId")
    case (Some h)
    with un have "h = 0" by (simp add: timer_unset_def)
    with rl_inv_pending [OF inv rl_inv_set [OF inv Some]] show ?thesis by simp
  qed simp
  have none: "(h, roomId) \<notin> set (rt_timers rt)" for h
    using rl_inv_pending_room [OF inv _ stored, of h] unset by auto
  have tm: "rt_timers ?rt' = rt_timers rt @ [(?h, roomId)]"
    and nx: "rt_nextHandle ?rt' = ?h"
    and tof: "\<And>rid. timeoutOf ?rt' rid = (if rid = roomId then Some ?h else timeoutOf rt rid)"
    using True by (simp_all add: rl_call_timers rl_call_nextHandle rl_call_timeoutOf)
  show ?thesis
  proof (rule rl_invI)
    show "distinct (map fst (rt_timers ?rt'))"
      using rl_inv_distinct [OF inv] fresh by (simp add: tm)
  next
    fix h rid
    assume "(h, rid) \<in> set (rt_timers ?rt')"
    then consider "(h, rid) \<in> set (rt_timers rt)" | "h = ?h" "rid = roomId"
      by (auto simp add: tm)
    then show "0 < h \<and> h \<le> rt_nextHandle ?rt'"
    proof cases
      case 1
      with rl_inv_pending [OF inv 1] show ?thesis by (simp add: nx)
    next
      case 2
      then show ?thesis by (simp add: nx)
    qed
  next
    fix h rid
    assume "(h, rid) \<in> set (rt_timers ?rt')" and st: "roomModel (rt_stores ?rt') rid \<noteq> None"
    then consider "(h, rid) \<in> set (rt_timers rt)" | "h = ?h" "rid = roomId"
      by (auto simp add: tm)
    then show "timeoutOf ?rt' rid = Some h"
    proof cases
      case 1
      with none have ne: "rid \<noteq> roomId" by auto
      from st have "roomModel (rt_stores rt) rid \<noteq> None" by (simp add: rl_call_stored)
      from rl_inv_pending_room [OF inv 1 this] ne show ?thesis by (simp add: tof)
    next
      case 2
      then show ?thesis by (simp add: tof)
    qed
  next
    fix rid h
    assume "timeoutOf ?rt' rid = Some h"
    then consider "rid = roomId" "h = ?h" | "rid \<noteq> roomId" "timeoutOf rt rid = Some h"
      by (auto simp add: tof split: if_splits)
    then show "(h, rid) \<in> set (rt_timers ?rt')"
    proof cases
      case 1
      then show ?thesis by (simp add: tm)
    next
      case 2
      with rl_inv_set [OF inv] show ?thesis by (simp add: tm)
    qed
  next
    fix h h' rid
    assume "(h, rid) \<in> set (rt_timers ?rt')" and "(h', rid) \<in> set (rt_timers ?rt')"
    with none consider "(h, rid) \<in> set (rt_timers rt)" "(h', rid) \<in> set (rt_timers rt)"
      | "h = ?h" "h' = ?h"
      by (auto simp add: tm)
    then show "h = h'"
    proof cases
      case 1
      then show ?thesis by (rule rl_inv_unique [OF inv])
    next
      case 2
      then show ?thesis by simp
    qed
  qed
next
  case False
  let ?rt' = "snd (rateLimitedBroadcast rt roomId msg minInterval now)"
  have tm: "rt_timers ?rt' = rt_timers rt"
    and nx: "rt_nextHandle ?rt' = rt_nextHandle rt"
    and tof: "\<And>rid. timeoutOf ?rt' rid = timeoutOf rt rid"
    using False by (simp_all add: rl_call_timers rl_call_nextHandle rl_call_timeoutOf)
  show ?thesis
  proof (rule rl_invI)
    show "distinct (map fst (rt_timers ?rt'))"
      using rl_inv_distinct [OF inv] by (simp add: tm)
  next
    fix h rid
    assume "(h, rid) \<in> set (rt_timers ?rt')"
    with rl_inv_pending [OF inv] show "0 < h \<and> h \<le> rt_nextHandle ?rt'"
      by (simp add: tm nx)
  next
    fix h rid
    assume "(h, rid) \<in> set (rt_timers ?rt')" and "roomModel (rt_stores ?rt') rid \<noteq> None"
    then have "(h, rid) \<in> set (rt_timers rt)" "roomModel (rt_stores rt) rid \<noteq> None"
      by (simp_all add: tm rl_call_stored)
    from rl_inv_pending_room [OF inv this] show "timeoutOf ?rt' rid = Some h"
      by (simp add: tof)
  next
    fix rid h
    assume "timeoutOf ?rt' rid = Some h"
    with rl_inv_set [OF inv] show "(h, rid) \<in> set (rt_timers ?rt')"
      by (simp add: tm tof)
  next
    fix h h' rid
    assume "(h, rid) \<in> set (rt_timers ?rt')" and "(h', rid) \<in> set (rt_timers ?rt')"
    then show "h = h'" using rl_inv_unique [OF inv] by (simp add: tm)
  qed
qed

lemma rl_steady_call:
  assumes "rl_steady rt"
  shows "rl_steady (snd (rateLimitedBroadcast rt roomId msg minInterval now))"
  unfolding rl_steady_def
proof (intro allI impI)
  fix rid
  let ?rt' = "snd (rateLimitedBroadcast rt roomId msg minInterval now)"
  assume n: "timeoutOf ?rt' rid = None"
  from assms have st: "\<And>r. timeoutOf rt r = None \<Longrightarrow> queueOf rt r = []"
    by (simp add: rl_steady_def)
  show "queueOf ?rt' rid = []"
  proof (cases "rid = roomId \<and> rl_within rt roomId minInterval now")
    case True
    show ?thesis
    proof (cases "rl_schedules rt roomId minInterval now")
      case True
      with n \<open>rid = roomId \<and> rl_within rt roomId minInterval now\<close> show ?thesis
        by (simp add: rl_call_timeoutOf)
    next
      case False
      with True have "\<not> timer_unset (timeoutOf rt roomId)" by (simp add: rl_schedules_def)
      then have "timeoutOf rt roomId \<noteq> None"
        by (auto simp add: timer_unset_def split: option.splits)
      with n True False show ?thesis by (simp add: rl_call_timeoutOf)
    qed
  next
    case False
    from n have "timeoutOf rt rid = None"
      by (simp add: rl_call_timeoutOf split: if_splits)
    from st [OF this] False show ?thesis by (simp add: rl_call_queueOf)
  qed
qed

lemma pq_Some:
  assumes "roomModel (rt_stores rt) roomId = Some room"
  shows "\<exists>rt'. processQueuedMessages rt roomId now = Inr rt'
      \<and> rt_timers rt' = rt_timers rt \<and> rt_nextHandle rt' = rt_nextHandle rt
      \<and> (\<forall>rid. (roomModel (rt_stores rt') rid = None) = (roomModel (rt_stores rt) rid = None))
      \<and> (\<forall>rid. timeoutOf rt' rid = (if rid = roomId then None else timeoutOf rt rid))
      \<and> (\<forall>rid. queueOf rt' rid = (if rid = roomId then [] else queueOf rt rid))
      \<and> rt_broadcasts rt' = rt_broadcasts rt
           @ (if queueOf rt roomId = [] then [] else [(roomId, envelope (queueOf rt roomId))])"
proof (cases "r_queuedMessages room")
  case None
  with assms show ?thesis
    by (simp add: processQueuedMessages_def putRoom_def timeoutOf_def queueOf_def)
next
  case (Some q)
  show ?thesis
  proof (cases q)
    case Nil
    with Some assms show ?thesis
      by (simp add: processQueuedMessages_def putRoom_def timeoutOf_def queueOf_def)
  next
    case (Cons m ms)
    show ?thesis
    proof (cases ms)
      case Nil
      with Cons Some assms show ?thesis
        by (simp add: processQueuedMessages_def putRoom_def timeoutOf_def queueOf_def Let_def
            callBroadcastToRoom_def envelope_def)
    next
      case (Cons m' ms')
      with \<open>q = m # ms\<close> Some assms show ?thesis
        by (simp add: processQueuedMessages_def putRoom_def timeoutOf_def queueOf_def Let_def
            batchBroadcast_def callBroadcastToRoom_def envelope_def)
    qed
  qed
qed

lemma timeoutOf_timers_upd [simp]: "timeoutOf (rt\<lparr>rt_timers := ts\<rparr>) rid = timeoutOf rt rid"
  by (simp add: timeoutOf_def)

lemma queueOf_timers_upd [simp]: "queueOf (rt\<lparr>rt_timers := ts\<rparr>) rid = queueOf rt rid"
  by (simp add: queueOf_def)

text \<open>
  The callback of a pending timeout: it flushes the room the timeout was set for, if the
  room is stored, and throws if it is not.
\<close>

lemma fireTimer_pending:
  assumes inv: "rl_inv rt" and pend: "(h, rid) \<in> set (rt_timers rt)"
  shows "fireTimer rt h now =
     (case processQueuedMessages (rt\<lparr>rt_timers := filter (\<lambda>t. fst t \<noteq> h) (rt_timers rt)\<rparr>) rid now of
        Inl e \<Rightarrow> (Some e, rt\<lparr>rt_timers := filter (\<lambda>t. fst t \<noteq> h) (rt_timers rt)\<rparr>)
      | Inr rt' \<Rightarrow> (None, rt'))"
proof (cases "filter (\<lambda>t. fst t = h) (rt_timers rt)")
  case Nil
  with pend have False by (auto simp add: filter_empty_conv)
  then show ?thesis ..
next
  case (Cons t ts)
  then have "t \<in> set (filter (\<lambda>t. fst t = h) (rt_timers rt))" by simp
  then have "(h, snd t) \<in> set (rt_timers rt)" by auto
  from rl_inv_same_handle [OF inv pend this] have "snd t = rid" by simp
  with Cons show ?thesis by (simp add: fireTimer_def Let_def)
qed

lemma fireTimer_none:
  assumes "h \<notin> fst ` set (rt_timers rt)"
  shows "fireTimer rt h now = (None, rt)"
proof -
  from assms have "filter (\<lambda>t. fst t = h) (rt_timers rt) = []"
    by (auto simp add: filter_empty_conv)
  then show ?thesis by (simp add: fireTimer_def)
qed

lemma fireTimer_flush:
  assumes inv: "rl_inv rt" and pend: "(h, rid) \<in> set (rt_timers rt)"
    and stored: "roomModel (rt_stores rt) rid \<noteq> None"
  shows "fst (fireTimer rt h now) = None
    \<and> rt_timers (snd (fireTimer rt h now)) = filter (\<lambda>t. fst t \<noteq> h) (rt_timers rt)
    \<and> rt_nextHandle (snd (fireTimer rt h now)) = rt_nextHandle rt
    \<and> (\<forall>r. (roomModel (rt_stores (snd (fireTimer rt h now))) r = None) = (roomModel (rt_stores rt) r = None))
    \<and> (\<forall>r. timeoutOf (snd (fireTimer rt h now)) r = (if r = rid then None else timeoutOf rt r))
    \<and> (\<forall>r. queueOf (snd (fireTimer rt h now)) r = (if r = rid then [] else queueOf rt r))
    \<and> rt_broadcasts (snd (fireTimer rt h now)) = rt_broadcasts rt
         @ (if queueOf rt rid = [] then [] else [(rid, envelope (queueOf rt rid))])"
proof -
  let ?rt0 = "rt\<lparr>rt_timers := filter (\<lambda>t. fst t \<noteq> h) (rt_timers rt)\<rparr>"
  from stored obtain room where "roomModel (rt_stores ?rt0) rid = Some room" by auto
  from pq_Some [OF this, of now] obtain rt' where pq: "processQueuedMessages ?rt0 rid now = Inr rt'"
    and rest: "rt_timers rt' = rt_timers ?rt0" "rt_nextHandle rt' = rt_nextHandle ?rt0"
      "\<forall>r. (roomModel (rt_stores rt') r = None) = (roomModel (rt_stores ?rt0) r = None)"
      "\<forall>r. timeoutOf rt' r = (if r = rid then None else timeoutOf ?rt0 r)"
      "\<forall>r. queueOf rt' r = (if r = rid then [] else queueOf ?rt0 r)"
      "rt_broadcasts rt' = rt_broadcasts ?rt0
         @ (if queueOf ?rt0 rid = [] then [] else [(rid, envelope (queueOf ?rt0 rid))])"
    by blast
  from fireTimer_pending [OF inv pend, of now] pq have "fireTimer rt h now = (None, rt')"
    by simp
  with rest show ?thesis by simp
qed

lemma fireTimer_throw:
  assumes inv: "rl_inv rt" and pend: "(h, rid) \<in> set (rt_timers rt)"
    and gone: "roomModel (rt_stores rt) rid = None"
  shows "fireTimer rt h now =
     (Some ''TypeError'', rt\<lparr>rt_timers := filter (\<lambda>t. fst t \<noteq> h) (rt_timers rt)\<rparr>)"
  using fireTimer_pending [OF inv pend, of now] gone
  by (simp add: processQueuedMessages_def)

lemma rl_inv_fire:
  assumes inv: "rl_inv rt"
  shows "rl_inv (snd (fireTimer rt h now))"
proof (cases "h \<in> fst ` set (rt_timers rt)")
  case False
  with inv show ?thesis by (simp add: fireTimer_none)
next
  case True
  then obtain rid where pend: "(h, rid) \<in> set (rt_timers rt)" by auto
  let ?rt' = "snd (fireTimer rt h now)"
  have all: "rt_timers ?rt' = filter (\<lambda>t. fst t \<noteq> h) (rt_timers rt)
        \<and> rt_nextHandle ?rt' = rt_nextHandle rt
        \<and> (\<forall>r. (roomModel (rt_stores ?rt') r = None) = (roomModel (rt_stores rt) r = None))
        \<and> (\<forall>r. timeoutOf ?rt' r = (if r = rid then None else timeoutOf rt r))"
  proof (cases "roomModel (rt_stores rt) rid = None")
    case True
    then have "timeoutOf rt rid = None" by (simp add: timeoutOf_def)
    with fireTimer_throw [OF inv pend True, of now] show ?thesis by simp
  next
    case False
    from fireTimer_flush [OF inv pend False, of now] show ?thesis by simp
  qed
  then have tm: "rt_timers ?rt' = filter (\<lambda>t. fst t \<noteq> h) (rt_timers rt)"
    and nx: "rt_nextHandle ?rt' = rt_nextHandle rt"
    and st: "\<And>r. (roomModel (rt_stores ?rt') r = None) = (roomModel (rt_stores rt) r = None)"
    and tof: "\<And>r. timeoutOf ?rt' r = (if r = rid then None else timeoutOf rt r)"
    by simp_all
  show ?thesis
  proof (rule rl_invI)
    show "distinct (map fst (rt_timers ?rt'))"
      using rl_inv_distinct [OF inv] by (simp add: tm distinct_map_filter)
  next
    fix h' r
    assume "(h', r) \<in> set (rt_timers ?rt')"
    then have "(h', r) \<in> set (rt_timers rt)" by (simp add: tm)
    with rl_inv_pending [OF inv] show "0 < h' \<and> h' \<le> rt_nextHandle ?rt'"
      by (simp add: nx)
  next
    fix h' r
    assume "(h', r) \<in> set (rt_timers ?rt')" and s: "roomModel (rt_stores ?rt') r \<noteq> None"
    then have old: "(h', r) \<in> set (rt_timers rt)" and ne: "h' \<noteq> h"
      by (auto simp add: tm)
    from rl_inv_unique [OF inv old] pend ne have "r \<noteq> rid" by auto
    moreover from s have "roomModel (rt_stores rt) r \<noteq> None" by (simp add: st)
    ultimately show "timeoutOf ?rt' r = Some h'"
      using rl_inv_pending_room [OF inv old] by (simp add: tof)
  next
    fix r h'
    assume "timeoutOf ?rt' r = Some h'"
    then have ne: "r \<noteq> rid" and old: "timeoutOf rt r = Some h'"
      by (auto simp add: tof split: if_splits)
    from rl_inv_set [OF inv old] have p: "(h', r) \<in> set (rt_timers rt)" .
    have "h' \<noteq> h"
    proof
      assume "h' = h"
      with p pend rl_inv_same_handle [OF inv] have "r = rid" by blast
      with ne show False by simp
    qed
    with p show "(h', r) \<in> set (rt_timers ?rt')" by (simp add: tm)
  next
    fix h1 h2 r
    assume "(h1, r) \<in> set (rt_timers ?rt')" and "(h2, r) \<in> set (rt_timers ?rt')"
    then show "h1 = h2" by (auto simp add: tm dest: rl_inv_unique [OF inv])
  qed
qed

lemma rl_steady_fire:
  assumes inv: "rl_inv rt" and steady: "rl_steady rt"
  shows "rl_steady (snd (fireTimer rt h now))"
proof (cases "h \<in> fst ` set (rt_timers rt)")
  case False
  with steady show ?thesis by (simp add: fireTimer_none)
next
  case True
  then obtain rid where pend: "(h, rid) \<in> set (rt_timers rt)" by auto
  from steady have st: "\<And>r. timeoutOf rt r = None \<Longrightarrow> queueOf rt r = []"
    by (simp add: rl_steady_def)
  show ?thesis
  proof (cases "roomModel (rt_stores rt) rid = None")
    case True
    from fireTimer_throw [OF inv pend True, of now] st show ?thesis
      by (simp add: rl_steady_def)
  next
    case False
    from fireTimer_flush [OF inv pend False, of now] st show ?thesis
      by (simp add: rl_steady_def)
  qed
qed

text \<open>\<open>cleanupBroadcastTimeouts\<close> keeps the invariant and every queue.\<close>

lemma cleanupRoom_queueOf: "queueOf (cleanupRoom rt roomId) rid = queueOf rt rid"
  by (simp add: cleanupRoom_def queueOf_def putRoom_def split: option.splits)

lemma cleanup_queueOf: "queueOf (cleanupBroadcastTimeouts rt roomIds) rid = queueOf rt rid"
  unfolding cleanupBroadcastTimeouts_def
  by (induction roomIds arbitrary: rt) (simp_all add: cleanupRoom_queueOf)

lemma rl_inv_cleanupRoom:
  assumes inv: "rl_inv rt"
  shows "rl_inv (cleanupRoom rt roomId)"
proof (cases "timeoutOf rt roomId")
  case None
  then have "cleanupRoom rt roomId = rt"
    by (simp add: cleanupRoom_def timeoutOf_def timer_unset_def split: option.splits)
  with inv show ?thesis by simp
next
  case (Some h0)
  from rl_inv_set [OF inv Some] have p0: "(h0, roomId) \<in> set (rt_timers rt)" .
  from rl_inv_pending [OF inv p0] have pos: "0 < h0" by simp
  let ?rt' = "cleanupRoom rt roomId"
  from Some pos have tm: "rt_timers ?rt' = filter (\<lambda>t. fst t \<noteq> h0) (rt_timers rt)"
    and nx: "rt_nextHandle ?rt' = rt_nextHandle rt"
    and st: "\<And>r. (roomModel (rt_stores ?rt') r = None) = (roomModel (rt_stores rt) r = None)"
    and tof: "\<And>r. timeoutOf ?rt' r = (if r = roomId then None else timeoutOf rt r)"
    by (auto simp add: cleanupRoom_def timeoutOf_def timer_unset_def putRoom_def
        split: option.splits)
  show ?thesis
  proof (rule rl_invI)
    show "distinct (map fst (rt_timers ?rt'))"
      using rl_inv_distinct [OF inv] by (simp add: tm distinct_map_filter)
  next
    fix h' r
    assume "(h', r) \<in> set (rt_timers ?rt')"
    then have "(h', r) \<in> set (rt_timers rt)" by (simp add: tm)
    with rl_inv_pending [OF inv] show "0 < h' \<and> h' \<le> rt_nextHandle ?rt'"
      by (simp add: nx)
  next
    fix h' r
    assume "(h', r) \<in> set (rt_timers ?rt')" and s: "roomModel (rt_stores ?rt') r \<noteq> None"
    then have old: "(h', r) \<in> set (rt_timers rt)" and ne: "h' \<noteq> h0"
      by (auto simp add: tm)
    from rl_inv_unique [OF inv old] p0 ne have "r \<noteq> roomId" by auto
    moreover from s have "roomModel (rt_stores rt) r \<noteq> None" by (simp add: st)
    ultimately show "timeoutOf ?rt' r = Some h'"
      using rl_inv_pending_room [OF inv old] by (simp add: tof)
  next
    fix r h'
    assume "timeoutOf ?rt' r = Some h'"
    then have ne: "r \<noteq> roomId" and old: "timeoutOf rt r = Some h'"
      by (auto simp add: tof split: if_splits)
    from rl_inv_set [OF inv old] have p: "(h', r) \<in> set (rt_timers rt)" .
    have "h' \<noteq> h0"
    proof
      assume "h' = h0"
      with p p0 rl_inv_same_handle [OF inv] have "r = roomId" by blast
      with ne show False by simp
    qed
    with p show "(h', r) \<in> set (rt_timers ?rt')" by (simp add: tm)
  next
    fix h1 h2 r
    assume "(h1, r) \<in> set (rt_timers ?rt')" and "(h2, r) \<in> set (rt_timers ?rt')"
    then show "h1 = h2" by (auto simp add: tm dest: rl_inv_unique [OF inv])
  qed
qed

lemma rl_inv_cleanup: "rl_inv rt \<Longrightarrow> rl_inv (cleanupBroadcastTimeouts rt roomIds)"
  unfolding cleanupBroadcastTimeouts_def
  by (induction roomIds arbitrary: rt) (simp_all add: rl_inv_cleanupRoom)

text \<open>The operations of the room store delete rooms or keep their broadcast fields.\<close>

lemma rl_frame_refl: "rl_frame s s"
  by (simp add: rl_frame_def)

lemma rl_frame_remove: "rl_frame s (snd (remove s roomId))"
  by (simp add: rl_frame_def remove_def Let_def)

lemma rl_frame_removePlayer: "rl_frame s (snd (removePlayer s roomId playerId))"
  by (auto simp add: rl_frame_def removePlayer_def remove_def Let_def split: option.splits if_splits)

lemma rl_frame_addPlayer: "rl_frame s (snd (addPlayer s roomId playerId))"
  by (auto simp add: rl_frame_def addPlayer_def Let_def split: option.splits if_splits)

lemma rl_frame_startGame: "rl_frame s (snd (startGame s roomId now))"
  by (auto simp add: rl_frame_def startGame_def Let_def split: option.splits if_splits)

lemma calculateWinnings_fields:
  "r_queuedMessages (fst (calculateWinnings pm r now)) = r_queuedMessages r"
  "r_broadcastTimeout (fst (calculateWinnings pm r now)) = r_broadcastTimeout r"
  by (simp_all add: calculateWinnings_def Let_def split: prod.splits)

lemma rl_frame_endGame: "rl_frame s (snd (endGame s roomId now))"
proof (cases "roomModel s roomId")
  case None
  then show ?thesis by (simp add: endGame_def rl_frame_refl)
next
  case (Some r)
  show ?thesis
  proof (cases "r_active r")
    case False
    with Some show ?thesis by (simp add: endGame_def rl_frame_refl)
  next
    case True
    let ?r0 = "r\<lparr>r_active := False, r_endedAt := Some now\<rparr>"
    obtain r' pm' where cw: "calculateWinnings (playerModel s) ?r0 now = (r', pm')"
      by (cases "calculateWinnings (playerModel s) ?r0 now")
    from calculateWinnings_fields [of "playerModel s" ?r0 now] cw
    have "r_queuedMessages r' = r_queuedMessages r" "r_broadcastTimeout r' = r_broadcastTimeout r"
      by simp_all
    with Some True cw show ?thesis
      by (simp add: endGame_def rl_frame_def)
  qed
qed

lemma rl_frame_pauseGame: "rl_frame s (snd (pauseGame s roomId))"
  by (auto simp add: rl_frame_def pauseGame_def split: option.splits if_splits)

lemma rl_frame_resumeGame: "rl_frame s (snd (resumeGame s roomId))"
  by (auto simp add: rl_frame_def resumeGame_def split: option.splits if_splits)

lemma rl_frame_callNumber: "rl_frame s (snd (callNumber s roomId n))"
  by (auto simp add: rl_frame_def callNumber_def split: option.splits if_splits)

lemma rl_frame_addWinner: "rl_frame s (snd (addWinner s roomId playerId nm pat amt now))"
  by (auto simp add: rl_frame_def addWinner_def Let_def split: option.splits if_splits)

lemma rl_frame_timeoutOf:
  assumes "rl_frame (rt_stores rt) s'"
  shows "timeoutOf (withStores rt s') rid =
     (if roomModel s' rid = None then None else timeoutOf rt rid)"
proof (cases "roomModel s' rid")
  case None
  then show ?thesis by (simp add: timeoutOf_def withStores_def)
next
  case (Some r')
  with assms obtain r where "roomModel (rt_stores rt) rid = Some r"
    "r_broadcastTimeout r' = r_broadcastTimeout r"
    unfolding rl_frame_def by blast
  with Some show ?thesis by (simp add: timeoutOf_def withStores_def)
qed

lemma rl_frame_queueOf:
  assumes "rl_frame (rt_stores rt) s'"
  shows "queueOf (withStores rt s') rid = (if roomModel s' rid = None then [] else queueOf rt rid)"
proof (cases "roomModel s' rid")
  case None
  then show ?thesis by (simp add: queueOf_def withStores_def)
next
  case (Some r')
  with assms obtain r where "roomModel (rt_stores rt) rid = Some r"
    "r_queuedMessages r' = r_queuedMessages r"
    unfolding rl_frame_def by blast
  with Some show ?thesis by (simp add: queueOf_def withStores_def)
qed

lemma rl_frame_stored:
  assumes "rl_frame (rt_stores rt) s'" and "roomModel s' rid \<noteq> None"
  shows "roomModel (rt_stores rt) rid \<noteq> None"
  using assms unfolding rl_frame_def by fastforce

lemma rl_inv_frame:
  assumes inv: "rl_inv rt" and fr: "rl_frame (rt_stores rt) s'"
  shows "rl_inv (withStores rt s')"
proof (rule rl_invI)
  show "distinct (map fst (rt_timers (withStores rt s')))"
    using rl_inv_distinct [OF inv] by (simp add: withStores_def)
next
  fix h rid
  assume "(h, rid) \<in> set (rt_timers (withStores rt s'))"
  with rl_inv_pending [OF inv] show "0 < h \<and> h \<le> rt_nextHandle (withStores rt s')"
    by (simp add: withStores_def)
next
  fix h rid
  assume "(h, rid) \<in> set (rt_timers (withStores rt s'))"
    and "roomModel (rt_stores (withStores rt s')) rid \<noteq> None"
  then have p: "(h, rid) \<in> set (rt_timers rt)" and s: "roomModel s' rid \<noteq> None"
    by (simp_all add: withStores_def)
  from rl_inv_pending_room [OF inv p rl_frame_stored [OF fr s]] s
  show "timeoutOf (withStores rt s') rid = Some h"
    by (simp add: rl_frame_timeoutOf [OF fr])
next
  fix rid h
  assume "timeoutOf (withStores rt s') rid = Some h"
  then have "timeoutOf rt rid = Some h"
    by (simp add: rl_frame_timeoutOf [OF fr] split: if_splits)
  from rl_inv_set [OF inv this] show "(h, rid) \<in> set (rt_timers (withStores rt s'))"
    by (simp add: withStores_def)
next
  fix h h' rid
  assume "(h, rid) \<in> set (rt_timers (withStores rt s'))"
    and "(h', rid) \<in> set (rt_timers (withStores rt s'))"
  then show "h = h'" using rl_inv_unique [OF inv] by (simp add: withStores_def)
qed

lemma rl_steady_frame:
  assumes steady: "rl_steady rt" and fr: "rl_frame (rt_stores rt) s'"
  shows "rl_steady (withStores rt s')"
  using steady by (simp add: rl_steady_def rl_frame_timeoutOf [OF fr] rl_frame_queueOf [OF fr])

lemma rl_reachable_inv: "rl_reachable c rt \<Longrightarrow> rl_inv rt"
  by (induction rule: rl_reachable.induct)
     (simp_all add: rl_inv_fresh rl_inv_call rl_inv_fire rl_inv_cleanup rl_inv_frame
        rl_frame_remove rl_frame_removePlayer rl_frame_addPlayer rl_frame_startGame
        rl_frame_endGame rl_frame_pauseGame rl_frame_resumeGame rl_frame_callNumber
        rl_frame_addWinner)

lemma rl_reachable_steady: "rl_reachable c rt \<Longrightarrow> \<not> c \<Longrightarrow> rl_steady rt"
proof (induction rule: rl_reachable.induct)
  case (fire c rt h now)
  then show ?case by (simp add: rl_steady_fire rl_reachable_inv)
qed (simp_all add: rl_steady_fresh rl_steady_call rl_steady_frame
        rl_frame_remove rl_frame_removePlayer rl_frame_addPlayer rl_frame_startGame
        rl_frame_endGame rl_frame_pauseGame rl_frame_resumeGame rl_frame_callNumber
        rl_frame_addWinner)

lemma distinct_all_equal:
  assumes "distinct xs" and "\<And>x y. x \<in> set xs \<Longrightarrow> y \<in> set xs \<Longrightarrow> x = y"
  shows "length xs \<le> 1"
proof (cases xs)
  case Nil
  then show ?thesis by simp
next
  case (Cons x ys)
  show ?thesis
  proof (cases ys)
    case Nil
    with Cons show ?thesis by simp
  next
    case (Cons y zs)
    with \<open>xs = x # ys\<close> assms(2) [of x y] assms(1) show ?thesis by simp
  qed
qed

lemma pendingFlushes_member: "(h \<in> set (pendingFlushes rt rid)) = ((h, rid) \<in> set (rt_timers rt))"
  by (force simp add: pendingFlushes_def)

lemma rl_inv_one_flush:
  assumes inv: "rl_inv rt"
  shows "length (pendingFlushes rt rid) \<le> 1"
proof (rule distinct_all_equal)
  show "distinct (pendingFlushes rt rid)"
    using rl_inv_distinct [OF inv] by (simp add: pendingFlushes_def distinct_map_filter)
next
  fix x y
  assume "x \<in> set (pendingFlushes rt rid)" and "y \<in> set (pendingFlushes rt rid)"
  then show "x = y" using rl_inv_unique [OF inv] by (simp add: pendingFlushes_member)
qed

lemma rl_steady_queue_has_flush:
  assumes inv: "rl_inv rt" and steady: "rl_steady rt" and q: "queueOf rt rid \<noteq> []"
  shows "pendingFlushes rt rid \<noteq> []"
proof (cases "timeoutOf rt rid")
  case None
  with steady q show ?thesis by (simp add: rl_steady_def)
next
  case (Some h)
  from rl_inv_set [OF inv Some] have "h \<in> set (pendingFlushes rt rid)"
    by (simp add: pendingFlushes_member)
  then show ?thesis by auto
qed

lemma fireTimer_no_flush_left:
  assumes inv: "rl_inv rt" and pend: "(h, rid) \<in> set (rt_timers rt)"
    and stored: "roomModel (rt_stores rt) rid \<noteq> None"
  shows "pendingFlushes (snd (fireTimer rt h now)) rid = []"
proof (rule ccontr)
  assume "pendingFlushes (snd (fireTimer rt h now)) rid \<noteq> []"
  then obtain h' where "h' \<in> set (pendingFlushes (snd (fireTimer rt h now)) rid)"
    by (cases "pendingFlushes (snd (fireTimer rt h now)) rid") auto
  then have "(h', rid) \<in> set (rt_timers rt)" "h' \<noteq> h"
    using fireTimer_flush [OF inv pend stored, of now] by (auto simp add: pendingFlushes_member)
  with rl_inv_unique [OF inv pend] show False by auto
qed

lemma rl_call_result:
  assumes "rl_within rt roomId minInterval now"
  shows "fst (rateLimitedBroadcast rt roomId msg minInterval now) = Queued"
proof (cases "roomModel (rt_stores rt) roomId")
  case None
  with assms show ?thesis by (simp add: rl_within_def)
next
  case (Some room)
  with assms show ?thesis
    by (simp add: rateLimitedBroadcast_def rl_within_def Let_def)
qed

lemma rtB_eq: "rtB = \<lparr>rt_stores = \<lparr>playerModel = pm1,
      roomModel = [''R1'' \<mapsto> roomA\<lparr>r_lastBroadcast := Some 1000\<rparr>]\<rparr>,
    rt_timers = [], rt_nextHandle = 0, rt_broadcasts = [(''R1'', Msg ''n0'')]\<rparr>"
  by (simp add: rtB_def rtStart_def rateLimitedBroadcast_def sA_def putRoom_def
      callBroadcastToRoom_def Let_def roomA_def room1_def js_arith)

lemma rtC_eq: "rtC = \<lparr>rt_stores = \<lparr>playerModel = pm1,
      roomModel = [''R1'' \<mapsto> roomA\<lparr>r_lastBroadcast := Some 1000,
         r_queuedMessages := Some [(Msg ''n1'', 1010)], r_broadcastTimeout := Some 1\<rparr>]\<rparr>,
    rt_timers = [(1, ''R1'')], rt_nextHandle = 1, rt_broadcasts = [(''R1'', Msg ''n0'')]\<rparr>"
  by (simp add: rtC_def rtB_eq rateLimitedBroadcast_def putRoom_def timer_unset_def
      callBroadcastToRoom_def Let_def roomA_def room1_def js_arith)

lemma rtD_eq: "rtD = \<lparr>rt_stores = \<lparr>playerModel = pm1,
      roomModel = [''R1'' \<mapsto> roomA\<lparr>r_lastBroadcast := Some 1000,
         r_queuedMessages := Some [(Msg ''n1'', 1010), (Msg ''n2'', 1020)],
         r_broadcastTimeout := Some 1\<rparr>]\<rparr>,
    rt_timers = [(1, ''R1'')], rt_nextHandle = 1, rt_broadcasts = [(''R1'', Msg ''n0'')]\<rparr>"
  by (simp add: rtD_def rtC_eq rateLimitedBroadcast_def putRoom_def timer_unset_def
      callBroadcastToRoom_def Let_def roomA_def room1_def js_arith)

lemma rtE_eq: "rtE = \<lparr>rt_stores = \<lparr>playerModel = pm1,
      roomModel = [''R1'' \<mapsto> roomA\<lparr>r_lastBroadcast := Some 1000,
         r_queuedMessages := Some [(Msg ''n1'', 1010), (Msg ''n2'', 1020)],
         r_broadcastTimeout := None\<rparr>]\<rparr>,
    rt_timers = [], rt_nextHandle = 1, rt_broadcasts = [(''R1'', Msg ''n0'')]\<rparr>"
  by (simp add: rtE_def rtD_eq cleanupBroadcastTimeouts_def cleanupRoom_def putRoom_def
      timer_unset_def roomA_def room1_def)

lemma rtF_eq: "rtF = \<lparr>rt_stores = \<lparr>playerModel = pm1,
      roomModel = [''R1'' \<mapsto> roomA\<lparr>r_lastBroadcast := Some 2000,
         r_queuedMessages := Some [(Msg ''n1'', 1010), (Msg ''n2'', 1020)],
         r_broadcastTimeout := None\<rparr>]\<rparr>,
    rt_timers = [], rt_nextHandle = 1,
    rt_broadcasts = [(''R1'', Msg ''n0''), (''R1'', Msg ''n3'')]\<rparr>"
  by (simp add: rtF_def rtE_eq rateLimitedBroadcast_def putRoom_def timer_unset_def
      callBroadcastToRoom_def Let_def roomA_def room1_def js_arith)

lemma rl_fresh_rtStart: "rl_fresh rtStart"
  by (simp add: rl_fresh_def rtStart_def sA_def roomA_def room1_def)

lemma rl_reachable_rtD: "rl_reachable c rtD"
  unfolding rtD_def rtC_def rtB_def
  by (intro rl_reachable.call rl_reachable.fresh rl_fresh_rtStart)

lemma rl_reachable_rtF: "rl_reachable True rtF"
proof -
  have "set [''R1''] = dom (roomModel (rt_stores rtD))" "distinct [''R1'']"
    by (simp_all add: rtD_eq)
  with rl_reachable_rtD [of True] have "rl_reachable True rtE"
    unfolding rtE_def by (rule rl_reachable.cleanup)
  then show ?thesis unfolding rtF_def by (rule rl_reachable.call)
qed

text \<open>
  C8, as stated, fails once \<open>cleanupBroadcastTimeouts\<close> has run. The room \<open>R1\<close> has
  broadcast \<open>n0\<close> at 1000 and has accepted \<open>n1\<close> at 1010 and \<open>n2\<close> at 1020 into its queue,
  with the flush 1 pending. \<open>cleanupBroadcastTimeouts\<close> cancels the flush and leaves the
  queue. The message \<open>n3\<close>, arriving at 2000, is broadcast at once; \<open>n1\<close> and \<open>n2\<close> are
  still queued and no flush is scheduled that would send them.
\<close>

theorem cleanup_strands_queue:
  "rl_reachable True rtF
   \<and> queueOf rtD ''R1'' = [Msg ''n1'', Msg ''n2''] \<and> pendingFlushes rtD ''R1'' = [1]
   \<and> queueOf rtE ''R1'' = [Msg ''n1'', Msg ''n2''] \<and> pendingFlushes rtE ''R1'' = []
   \<and> fst (rateLimitedBroadcast rtE ''R1'' (Msg ''n3'') None 2000) = Immediate
   \<and> rt_broadcasts rtF = [(''R1'', Msg ''n0''), (''R1'', Msg ''n3'')]
   \<and> queueOf rtF ''R1'' = [Msg ''n1'', Msg ''n2''] \<and> pendingFlushes rtF ''R1'' = []"
proof -
  have "fst (rateLimitedBroadcast rtE ''R1'' (Msg ''n3'') None 2000) = Immediate"
    by (simp add: rtE_eq rateLimitedBroadcast_def Let_def js_arith)
  with rl_reachable_rtF show ?thesis
    by (simp add: rtD_eq rtE_eq rtF_eq queueOf_def pendingFlushes_def)
qed

text \<open>
  C8, amended. A call of \<open>rateLimitedBroadcast\<close> that arrives within the minimum interval
  since the room's last broadcast is queued: it answers true, sends nothing and appends the
  message to the end of the room's queue. In every state the runtime reaches, a room has at
  most one flush pending. A pending flush of a stored room, when the runtime runs it, does
  not throw and makes one call of \<open>broadcastToRoom\<close> if the queue is not empty: with the
  message itself when one is queued, with one batch envelope of all queued messages in the
  order of their calls when several are; it leaves the queue empty and no flush pending.
  In the states reached without \<open>cleanupBroadcastTimeouts\<close>, a room whose queue is not
  empty has its one flush pending, so no queued message of a stored room is lost.
  \<open>cleanupBroadcastTimeouts\<close> itself leaves every queue as it is.
\<close>

theorem rateLimitedBroadcast_flush:
  "(rl_within rt roomId minInterval now \<longrightarrow>
      fst (rateLimitedBroadcast rt roomId msg minInterval now) = Queued
      \<and> queueOf (snd (rateLimitedBroadcast rt roomId msg minInterval now)) roomId
          = queueOf rt roomId @ [msg]
      \<and> rt_broadcasts (snd (rateLimitedBroadcast rt roomId msg minInterval now))
          = rt_broadcasts rt)
   \<and> (rl_reachable c rt1 \<longrightarrow> length (pendingFlushes rt1 roomId1) \<le> 1)
   \<and> (rl_reachable c rt2 \<and> h \<in> set (pendingFlushes rt2 roomId2)
        \<and> roomModel (rt_stores rt2) roomId2 \<noteq> None \<longrightarrow>
        fst (fireTimer rt2 h now2) = None
        \<and> rt_broadcasts (snd (fireTimer rt2 h now2)) = rt_broadcasts rt2
             @ (if queueOf rt2 roomId2 = [] then []
                else [(roomId2, envelope (queueOf rt2 roomId2))])
        \<and> queueOf (snd (fireTimer rt2 h now2)) roomId2 = []
        \<and> pendingFlushes (snd (fireTimer rt2 h now2)) roomId2 = [])
   \<and> (rl_reachable False rt3 \<and> queueOf rt3 roomId3 \<noteq> [] \<longrightarrow>
        length (pendingFlushes rt3 roomId3) = 1)
   \<and> queueOf (cleanupBroadcastTimeouts rt4 roomIds) roomId4 = queueOf rt4 roomId4"
proof (intro conjI impI)
  assume w: "rl_within rt roomId minInterval now"
  then show "fst (rateLimitedBroadcast rt roomId msg minInterval now) = Queued"
    by (rule rl_call_result)
  from w show "queueOf (snd (rateLimitedBroadcast rt roomId msg minInterval now)) roomId
          = queueOf rt roomId @ [msg]"
    by (simp add: rl_call_queueOf)
  from w show "rt_broadcasts (snd (rateLimitedBroadcast rt roomId msg minInterval now))
          = rt_broadcasts rt"
    by (simp add: rl_call_broadcasts)
next
  assume "rl_reachable c rt1"
  then have "rl_inv rt1" by (rule rl_reachable_inv)
  then show "length (pendingFlushes rt1 roomId1) \<le> 1" by (rule rl_inv_one_flush)
next
  assume a: "rl_reachable c rt2 \<and> h \<in> set (pendingFlushes rt2 roomId2)
        \<and> roomModel (rt_stores rt2) roomId2 \<noteq> None"
  then have "rl_reachable c rt2" by simp
  then have inv: "rl_inv rt2" by (rule rl_reachable_inv)
  from a have pend: "(h, roomId2) \<in> set (rt_timers rt2)"
    and stored: "roomModel (rt_stores rt2) roomId2 \<noteq> None"
    by (simp_all add: pendingFlushes_member)
  from fireTimer_flush [OF inv pend stored, of now2]
  show "fst (fireTimer rt2 h now2) = None"
    and "rt_broadcasts (snd (fireTimer rt2 h now2)) = rt_broadcasts rt2
             @ (if queueOf rt2 roomId2 = [] then []
                else [(roomId2, envelope (queueOf rt2 roomId2))])"
    and "queueOf (snd (fireTimer rt2 h now2)) roomId2 = []"
    by simp_all
  from inv pend stored show "pendingFlushes (snd (fireTimer rt2 h now2)) roomId2 = []"
    by (rule fireTimer_no_flush_left)
next
  assume a: "rl_reachable False rt3 \<and> queueOf rt3 roomId3 \<noteq> []"
  then have r3: "rl_reachable False rt3" by simp
  then have inv: "rl_inv rt3" by (rule rl_reachable_inv)
  from r3 have steady: "rl_steady rt3" by (rule rl_reachable_steady) simp
  from a have "queueOf rt3 roomId3 \<noteq> []" by simp
  with inv steady have "pendingFlushes rt3 roomId3 \<noteq> []" by (rule rl_steady_queue_has_flush)
  with rl_inv_one_flush [OF inv, of roomId3] show "length (pendingFlushes rt3 roomId3) = 1"
    by (cases "pendingFlushes rt3 roomId3") auto
next
  show "queueOf (cleanupBroadcastTimeouts rt4 roomIds) roomId4 = queueOf rt4 roomId4"
    by (rule cleanup_queueOf)
qed

theorem rateLimitedBroadcast_flush_witness:
  "rl_within rtC ''R1'' None 1020
   \<and> queueOf rtC ''R1'' = [Msg ''n1'']
   \<and> queueOf rtD ''R1'' = [Msg ''n1'', Msg ''n2'']
   \<and> rt_broadcasts rtD = [(''R1'', Msg ''n0'')]
   \<and> rl_reachable False rtD
   \<and> pendingFlushes rtD ''R1'' = [1]
   \<and> map_option r_id (roomModel (rt_stores rtD) ''R1'') = Some ''R1''
   \<and> fst (fireTimer rtD 1 1110) = None
   \<and> rt_broadcasts (snd (fireTimer rtD 1 1110))
       = [(''R1'', Msg ''n0''), (''R1'', Batch [Msg ''n1'', Msg ''n2''])]
   \<and> queueOf (snd (fireTimer rtD 1 1110)) ''R1'' = []
   \<and> pendingFlushes (snd (fireTimer rtD 1 1110)) ''R1'' = []
   \<and> rl_reachable True rtF
   \<and> length (pendingFlushes rtF ''R1'') \<le> 1
   \<and> queueOf rtE ''R1'' = queueOf rtD ''R1''"
proof -
  have a: "rl_within rtC ''R1'' None 1020"
    by (simp add: rl_within_def rtC_eq js_arith)
  have b: "queueOf rtC ''R1'' = [Msg ''n1'']" and c: "rt_broadcasts rtC = [(''R1'', Msg ''n0'')]"
    by (simp_all add: queueOf_def rtC_eq)
  have d: "queueOf rtD ''R1'' = [Msg ''n1'', Msg ''n2'']"
    using rateLimitedBroadcast_flush [of rtC "''R1''" None 1020 "Msg ''n2''"] a b
    by (simp add: rtD_def)
  have e: "rt_broadcasts rtD = [(''R1'', Msg ''n0'')]"
    using rateLimitedBroadcast_flush [of rtC "''R1''" None 1020 "Msg ''n2''"] a c
    by (simp add: rtD_def)
  have f: "pendingFlushes rtD ''R1'' = [1]"
    and g: "map_option r_id (roomModel (rt_stores rtD) ''R1'') = Some ''R1''"
    by (simp_all add: pendingFlushes_def rtD_eq roomA_def room1_def)
  have env: "envelope [Msg ''n1'', Msg ''n2''] = Batch [Msg ''n1'', Msg ''n2'']"
    by (simp add: envelope_def)
  have st: "roomModel (rt_stores rtD) ''R1'' \<noteq> None"
    by (simp add: rtD_eq)
  have i: "fst (fireTimer rtD 1 1110) = None
      \<and> rt_broadcasts (snd (fireTimer rtD 1 1110))
          = [(''R1'', Msg ''n0''), (''R1'', Batch [Msg ''n1'', Msg ''n2''])]
      \<and> queueOf (snd (fireTimer rtD 1 1110)) ''R1'' = []
      \<and> pendingFlushes (snd (fireTimer rtD 1 1110)) ''R1'' = []"
    using rateLimitedBroadcast_flush [of _ _ _ _ _ False _ _ rtD 1 "''R1''" 1110]
      rl_reachable_rtD [of False] d e f env st
    by simp
  have j: "length (pendingFlushes rtF ''R1'') \<le> 1"
    using rateLimitedBroadcast_flush [of _ _ _ _ _ True rtF "''R1''"] rl_reachable_rtF
    by simp
  have k: "queueOf rtE ''R1'' = queueOf rtD ''R1''"
    using rateLimitedBroadcast_flush [of _ _ _ _ _ _ _ _ _ _ _ _ _ _ rtD "[''R1'']" "''R1''"]
    by (simp add: rtE_def)
  from a b d e f g i j k rl_reachable_rtD [of False] rl_reachable_rtF show ?thesis
    by simp
qed

end
